theory Spec2Isabelle
  imports Complex_Main
begin

section \<open>JavaScript values\<close>

text \<open>
  The values the pricing module computes with. A field of a parameter object is a finite
  number, \<^verbatim>\<open>NaN\<close> or \<^verbatim>\<open>undefined\<close> (a missing field). Reading a key of a rule table
  follows the prototype chain, so a key the table does not hold can still give a value:
  \<open>Inherited\<close> is what every object inherits from \<^verbatim>\<open>Object.prototype\<close> (a function such
  as \<^verbatim>\<open>toString\<close> or \<^verbatim>\<open>constructor\<close>, or the prototype object under \<^verbatim>\<open>__proto__\<close>).
  \<open>Text\<close> is a string that does not read as a number: the result of \<^verbatim>\<open>+\<close> with such a
  value, for example \<^verbatim>\<open>"2function toString() { [native code] }"\<close>. Numbers are exact
  reals: rounding and the infinities of IEEE doubles are outside the model.
\<close>

datatype jsval = Num real | NaN | Undefined | Inherited | Text

datatype js_error = TypeError

text \<open>
  Truthiness in a condition: \<^verbatim>\<open>0\<close>, \<^verbatim>\<open>NaN\<close> and \<^verbatim>\<open>undefined\<close> are falsy; a function,
  an object and a non-empty string are truthy.
\<close>

definition truthy :: "jsval \<Rightarrow> bool" where
  "truthy v =
     (case v of Num r \<Rightarrow> r \<noteq> 0 | NaN \<Rightarrow> False | Undefined \<Rightarrow> False
      | Inherited \<Rightarrow> True | Text \<Rightarrow> True)"

text \<open>\<^verbatim>\<open>Number(v)\<close>: the identity on numbers, \<^verbatim>\<open>NaN\<close> on everything else here.\<close>

definition Number :: "jsval \<Rightarrow> jsval" where
  "Number v =
     (case v of Num r \<Rightarrow> Num r | NaN \<Rightarrow> NaN | Undefined \<Rightarrow> NaN
      | Inherited \<Rightarrow> NaN | Text \<Rightarrow> NaN)"

definition isNaN :: "jsval \<Rightarrow> bool" where
  "isNaN v = (Number v = NaN)"

text \<open>
  \<^verbatim>\<open>a + b\<close>: when an operand is a function, an object or a string the operands are
  concatenated as strings, and the result does not read as a number; otherwise the
  operands are added as numbers, and \<^verbatim>\<open>undefined\<close> counts as \<^verbatim>\<open>NaN\<close>.
\<close>

fun jsAdd :: "jsval \<Rightarrow> jsval \<Rightarrow> jsval" where
  "jsAdd Inherited _ = Text"
| "jsAdd Text _ = Text"
| "jsAdd _ Inherited = Text"
| "jsAdd _ Text = Text"
| "jsAdd (Num a) (Num b) = Num (a + b)"
| "jsAdd _ _ = NaN"

text \<open>\<^verbatim>\<open>a * b\<close>, \<^verbatim>\<open>a / b\<close> and \<^verbatim>\<open>a > b\<close> convert both operands to numbers.\<close>

fun jsMul :: "jsval \<Rightarrow> jsval \<Rightarrow> jsval" where
  "jsMul (Num a) (Num b) = Num (a * b)"
| "jsMul _ _ = NaN"

text \<open>
  Division by zero gives an infinity or \<^verbatim>\<open>NaN\<close> in JavaScript. The module divides by
  \<^verbatim>\<open>totalPages\<close> under the guard \<^verbatim>\<open>totalPages > 0\<close> and by the literal 2, so the model's
  \<^verbatim>\<open>NaN\<close> for a zero divisor is never reached.
\<close>

fun jsDiv :: "jsval \<Rightarrow> jsval \<Rightarrow> jsval" where
  "jsDiv (Num a) (Num b) = (if b = 0 then NaN else Num (a / b))"
| "jsDiv _ _ = NaN"

fun jsGt :: "jsval \<Rightarrow> jsval \<Rightarrow> bool" where
  "jsGt (Num a) (Num b) = (b < a)"
| "jsGt _ _ = False"

text \<open>\<^verbatim>\<open>a || b\<close> on values.\<close>

definition jsOr :: "jsval \<Rightarrow> jsval \<Rightarrow> jsval" where
  "jsOr a b = (if truthy a then a else b)"

text \<open>
  An object reference is \<^verbatim>\<open>null\<close>/\<^verbatim>\<open>undefined\<close> (\<open>None\<close>) or an object. Reading the
  fields of \<^verbatim>\<open>null\<close> or \<^verbatim>\<open>undefined\<close> (here: by destructuring) throws a
  \<^verbatim>\<open>TypeError\<close>.
\<close>

definition truthyObj :: "'a option \<Rightarrow> bool" where
  "truthyObj obj = (obj \<noteq> None)"

definition destructure :: "'a option \<Rightarrow> js_error + 'a" where
  "destructure obj = (case obj of None \<Rightarrow> Inl TypeError | Some ob \<Rightarrow> Inr ob)"

text \<open>Sequencing of steps that can throw: the first error ends the computation.\<close>

definition bindE :: "'e + 'a \<Rightarrow> ('a \<Rightarrow> 'e + 'b) \<Rightarrow> 'e + 'b" where
  "bindE m f = (case m of Inl e \<Rightarrow> Inl e | Inr x \<Rightarrow> f x)"

section \<open>Rule objects\<close>

text \<open>
  The rules argument of a calculator is the service's \<^verbatim>\<open>pricingRules\<close>, untyped JSON:
  it is \<^verbatim>\<open>undefined\<close> (then the parameter's default, the module's own table, is used),
  \<^verbatim>\<open>null\<close>, or an object. Within an object a rate is a number or missing (\<open>None\<close>), and
  a table is an object of numbers or missing (\<open>None\<close>, which also stands for
  \<^verbatim>\<open>null\<close>). Rule objects with values of other kinds (strings, arrays, booleans) are
  outside the model.
\<close>

datatype 'r jsarg = ArgUndefined | ArgNull | ArgObj 'r

definition withDefault :: "'r \<Rightarrow> 'r jsarg \<Rightarrow> 'r jsarg" where
  "withDefault d arg = (case arg of ArgUndefined \<Rightarrow> ArgObj d | ArgNull \<Rightarrow> ArgNull | ArgObj r \<Rightarrow> ArgObj r)"

text \<open>\<^verbatim>\<open>rules.field\<close>: throws on \<^verbatim>\<open>null\<close> and \<^verbatim>\<open>undefined\<close>.\<close>

definition propertyOf :: "'r jsarg \<Rightarrow> ('r \<Rightarrow> 'a) \<Rightarrow> js_error + 'a" where
  "propertyOf arg field =
     (case arg of ArgUndefined \<Rightarrow> Inl TypeError | ArgNull \<Rightarrow> Inl TypeError
      | ArgObj r \<Rightarrow> Inr (field r))"

text \<open>A rate that was read: the number, or \<^verbatim>\<open>undefined\<close> when the object has none.\<close>

definition rateValue :: "real option \<Rightarrow> jsval" where
  "rateValue r = (case r of None \<Rightarrow> Undefined | Some x \<Rightarrow> Num x)"

text \<open>The property names every object inherits from \<^verbatim>\<open>Object.prototype\<close>.\<close>

definition objectPrototypeKeys :: "string list" where
  "objectPrototypeKeys =
     [''constructor'', ''toString'', ''toLocaleString'', ''valueOf'', ''hasOwnProperty'',
      ''isPrototypeOf'', ''propertyIsEnumerable'', ''__defineGetter__'',
      ''__defineSetter__'', ''__lookupGetter__'', ''__lookupSetter__'', ''__proto__'']"

text \<open>
  \<^verbatim>\<open>table[key]\<close>: the table's own entry; for a key it does not hold, the inherited value
  when the key is one of the inherited names, and \<^verbatim>\<open>undefined\<close> otherwise. Indexing a
  missing table throws.
\<close>

definition tableEntry :: "(string \<rightharpoonup> real) \<Rightarrow> string \<Rightarrow> jsval" where
  "tableEntry table key =
     (case table key of
        Some v \<Rightarrow> Num v
      | None \<Rightarrow> if key \<in> set objectPrototypeKeys then Inherited else Undefined)"

definition indexTable :: "(string \<rightharpoonup> real) option \<Rightarrow> string \<Rightarrow> js_error + jsval" where
  "indexTable table key =
     (case table of None \<Rightarrow> Inl TypeError | Some t \<Rightarrow> Inr (tableEntry t key))"

section \<open>Strings and dates\<close>

text \<open>
  \<^verbatim>\<open>String(n)\<close> and \<^verbatim>\<open>n.toString()\<close> on a non-negative integer: its decimal digits,
  most significant first, with no leading zero.
\<close>

definition digitChar :: "nat \<Rightarrow> char" where
  "digitChar d = ''0123456789'' ! d"

fun toString :: "nat \<Rightarrow> string" where
  "toString n =
     (if n < 10 then [digitChar n] else toString (n div 10) @ [digitChar (n mod 10)])"

declare toString.simps [simp del]

text \<open>\<^verbatim>\<open>s.padStart(targetLength, c)\<close>: pads on the left, never truncates.\<close>

definition padStart :: "nat \<Rightarrow> char \<Rightarrow> string \<Rightarrow> string" where
  "padStart targetLength c s = replicate (targetLength - length s) c @ s"

text \<open>\<^verbatim>\<open>s.substr(-k)\<close>: the last \<open>k\<close> characters, or all of \<open>s\<close> when it is shorter.\<close>

definition substrFromEnd :: "nat \<Rightarrow> string \<Rightarrow> string" where
  "substrFromEnd k s = drop (length s - k) s"

text \<open>
  A \<^verbatim>\<open>Date\<close> in the server's local time: the calendar fields the code reads
  (\<^verbatim>\<open>getMonth\<close> counts from 0) and the milliseconds since local midnight.
  \<^verbatim>\<open>toDateString()\<close> prints the weekday, month, day and year; two dates print the
  same string exactly when year, month and day agree, so the triple stands for the string.
\<close>

record jsdate =
  getFullYear :: nat
  getMonth :: nat
  getDate :: nat
  timeOfDay :: nat

definition toDateString :: "jsdate \<Rightarrow> nat \<times> nat \<times> nat" where
  "toDateString d = (getFullYear d, getMonth d, getDate d)"

text \<open>\<^verbatim>\<open>d.setHours(h, m, s, ms)\<close> keeps the day and sets the time of day.\<close>

definition setHours :: "jsdate \<Rightarrow> nat \<Rightarrow> nat \<Rightarrow> nat \<Rightarrow> nat \<Rightarrow> jsdate" where
  "setHours d h m s ms = d\<lparr>timeOfDay := ((h * 60 + m) * 60 + s) * 1000 + ms\<rparr>"

text \<open>Earlier-than on dates, as the database compares timestamps.\<close>

definition dateLess :: "jsdate \<Rightarrow> jsdate \<Rightarrow> bool" where
  "dateLess a b =
     (getFullYear a < getFullYear b
      \<or> (getFullYear a = getFullYear b
          \<and> (getMonth a < getMonth b
              \<or> (getMonth a = getMonth b
                  \<and> (getDate a < getDate b
                      \<or> (getDate a = getDate b \<and> timeOfDay a < timeOfDay b))))))"

section \<open>Orders and the in-memory store\<close>

text \<open>
  \<^verbatim>\<open>InsertOrder\<close> and \<^verbatim>\<open>Order\<close> of the shared schema, with the columns the order
  routes read; the remaining columns (customer id, discount, payment method and status,
  notes, and an item's specifications) are copied unchanged like \<open>customerName\<close>. A
  missing optional value is \<open>None\<close>.
  An item built by the seeding code has no order id (see \<open>newMemStorage\<close>), so
  \<open>orderId\<close> is optional.
\<close>

record insertOrder =
  orderNumber :: "string option"
  customerName :: "string option"
  total :: real
  status :: "string option"
  createdBy :: nat

record order = insertOrder +
  id_order :: nat
  createdAt :: jsdate

record insertOrderItem =
  orderId :: "nat option"
  serviceId :: nat
  quantity :: int
  unitPrice :: real
  amount :: real

record orderItem = insertOrderItem +
  id_item :: nat

text \<open>
  A JavaScript \<^verbatim>\<open>Map\<close> keeps its entries in insertion order; \<^verbatim>\<open>set\<close> replaces
  the value of a key that is present and appends otherwise.
\<close>

fun map_set :: "'k \<Rightarrow> 'v \<Rightarrow> ('k \<times> 'v) list \<Rightarrow> ('k \<times> 'v) list" where
  "map_set k v [] = [(k, v)]"
| "map_set k v ((k', v') # kvs) =
     (if k' = k then (k, v) # kvs else (k', v') # map_set k v kvs)"

definition map_values :: "('k \<times> 'v) list \<Rightarrow> 'v list" where
  "map_values kvs = map snd kvs"

text \<open>The fields of \<^verbatim>\<open>MemStorage\<close> that order creation touches.\<close>

record memStorage =
  orders :: "(nat \<times> order) list"
  orderItems :: "(nat \<times> orderItem) list"
  orderCurrentId :: nat
  orderItemCurrentId :: nat
  orderNumbers :: "string set"

text \<open>\<^verbatim>\<open>!s\<close> on an optional string: true for \<^verbatim>\<open>undefined\<close> and for the empty string.\<close>

definition falsyString :: "string option \<Rightarrow> bool" where
  "falsyString s = (case s of None \<Rightarrow> True | Some str \<Rightarrow> str = [])"

text \<open>
  \<^verbatim>\<open>MemStorage.createOrder\<close>. The method reads the clock twice (\<open>now\<close> for
  \<^verbatim>\<open>createdAt\<close>, \<open>date\<close> for the number) and draws one random number;
  \<open>randomInt\<close> is the value of \<^verbatim>\<open>Math.floor(Math.random() * 1000)\<close>, a whole number
  from 0 to 999. The result is the order and the store after the call.
\<close>

definition MemStorage_createOrder ::
  "memStorage \<Rightarrow> insertOrder \<Rightarrow> jsdate \<Rightarrow> jsdate \<Rightarrow> nat \<Rightarrow> order \<times> memStorage" where
  "MemStorage_createOrder this insertOrder now date randomInt =
     (let ident = orderCurrentId this;
          this1 = this\<lparr>orderCurrentId := ident + 1\<rparr>;
          insertOrder1 =
            (if falsyString (orderNumber insertOrder)
                \<or> (case orderNumber insertOrder of
                      None \<Rightarrow> False
                    | Some n \<Rightarrow> n \<in> orderNumbers this1)
             then
               (let year = substrFromEnd 2 (toString (getFullYear date));
                    month = padStart 2 (CHR ''0'') (toString (getMonth date + 1));
                    day = padStart 2 (CHR ''0'') (toString (getDate date));
                    dateString = year @ month @ day;
                    todayOrders =
                      length (filter (\<lambda>ord. toDateString (createdAt ord) = toDateString date)
                                (map_values (orders this1)));
                    sequentialNum = padStart 4 (CHR ''0'') (toString (todayOrders + 1));
                    candidate = ''ORD-'' @ dateString @ ''-'' @ sequentialNum
                in if candidate \<in> orderNumbers this1
                   then
                     (let randomSuffix = padStart 3 (CHR ''0'') (toString randomInt)
                      in insertOrder\<lparr>orderNumber :=
                           Some (''ORD-'' @ dateString @ ''-'' @ sequentialNum @ ''-''
                                 @ randomSuffix)\<rparr>)
                   else insertOrder\<lparr>orderNumber := Some candidate\<rparr>)
             else insertOrder);
          this2 =
            this1\<lparr>orderNumbers :=
              (case orderNumber insertOrder1 of
                 None \<Rightarrow> orderNumbers this1
               | Some n \<Rightarrow> insert n (orderNumbers this1))\<rparr>;
          ord = insertOrder.extend insertOrder1 \<lparr>id_order = ident, createdAt = now\<rparr>;
          this3 = this2\<lparr>orders := map_set ident ord (orders this2)\<rparr>
      in (ord, this3))"

definition MemStorage_createOrderItem ::
  "memStorage \<Rightarrow> insertOrderItem \<Rightarrow> orderItem \<times> memStorage" where
  "MemStorage_createOrderItem this insertOrderItem =
     (let ident = orderItemCurrentId this;
          this1 = this\<lparr>orderItemCurrentId := ident + 1\<rparr>;
          item = insertOrderItem.extend insertOrderItem \<lparr>id_item = ident\<rparr>;
          this2 = this1\<lparr>orderItems := map_set ident item (orderItems this1)\<rparr>
      in (item, this2))"

definition MemStorage_getOrderItems :: "memStorage \<Rightarrow> nat \<Rightarrow> orderItem list" where
  "MemStorage_getOrderItems this oid =
     filter (\<lambda>item. orderId item = Some oid) (map_values (orderItems this))"

text \<open>
  \<^verbatim>\<open>new MemStorage()\<close>, as far as orders go. The constructor sets empty maps and
  counters at 1 (\<open>constructorFields\<close>) and calls \<^verbatim>\<open>seedInitialData\<close>, which creates
  three sample orders, each followed by one item. \<open>now1\<close>, \<open>now2\<close> and \<open>now3\<close> are
  the clock values the three \<^verbatim>\<open>createOrder\<close> calls read; the sample orders bring their
  own numbers, so no second clock value and no random number is read (the arguments
  given for them here are not used). \<^verbatim>\<open>createOrder\<close> is an \<^verbatim>\<open>async\<close> method without
  an \<^verbatim>\<open>await\<close>: its body has run when the call returns, and what it returns is a
  promise, so the \<^verbatim>\<open>order1.id\<close> the seeding code passes as the item's order id is
  \<^verbatim>\<open>undefined\<close>.
\<close>

definition constructorFields :: memStorage where
  "constructorFields =
     \<lparr>orders = [], orderItems = [], orderCurrentId = 1, orderItemCurrentId = 1,
      orderNumbers = {}\<rparr>"

definition newMemStorage :: "jsdate \<Rightarrow> jsdate \<Rightarrow> jsdate \<Rightarrow> memStorage" where
  "newMemStorage now1 now2 now3 =
     (let this1 = snd (MemStorage_createOrder constructorFields
                    \<lparr>orderNumber = Some ''ORD-2023-0041'', customerName = Some ''ABC Company'',
                     total = 750, status = Some ''in_progress'', createdBy = 1\<rparr>
                    now1 now1 0);
          this2 = snd (MemStorage_createOrderItem this1
                    \<lparr>orderId = None, serviceId = 2, quantity = 1, unitPrice = 750,
                     amount = 750\<rparr>);
          this3 = snd (MemStorage_createOrder this2
                    \<lparr>orderNumber = Some ''ORD-2023-0040'',
                     customerName = Some ''Walk-in Customer'',
                     total = 250, status = Some ''ready'', createdBy = 2\<rparr>
                    now2 now2 0);
          this4 = snd (MemStorage_createOrderItem this3
                    \<lparr>orderId = None, serviceId = 3, quantity = 10, unitPrice = 25,
                     amount = 250\<rparr>);
          this5 = snd (MemStorage_createOrder this4
                    \<lparr>orderNumber = Some ''ORD-2023-0039'',
                     customerName = Some ''Walk-in Customer'',
                     total = 625, status = Some ''pending'', createdBy = 2\<rparr>
                    now3 now3 0);
          this6 = snd (MemStorage_createOrderItem this5
                    \<lparr>orderId = None, serviceId = 4, quantity = 5, unitPrice = 125,
                     amount = 625\<rparr>)
      in this6)"

section \<open>The database store\<close>

text \<open>
  What a handler's \<^verbatim>\<open>catch\<close> receives: a \<^verbatim>\<open>ZodError\<close> or any other error (a failed
  database call among them).
\<close>

datatype route_error = ZodError | OtherError

text \<open>
  \<^verbatim>\<open>DatabaseStorage.createOrder\<close>. The database is outside the repository, so its
  calls are parameters over a database state \<open>'db\<close>:
  \<open>countQuery db todayStart todayEnd\<close> is the
  \<^verbatim>\<open>select count(*) ... where created_at > todayStart and created_at < todayEnd\<close>, and
  \<open>insertQuery db row\<close> is \<^verbatim>\<open>db.insert(orders).values(row).returning()\<close>; either can
  fail. The count query has no numeric mapping (\<^verbatim>\<open>sql<number>\<close> is a type annotation
  only) and the driver hands a \<^verbatim>\<open>count(*)\<close>, a \<^verbatim>\<open>bigint\<close>, over as a decimal string:
  \<open>todayOrders\<close> is the list of the \<^verbatim>\<open>count\<close> strings of the returned rows. So
  \<^verbatim>\<open>count\<close> is that string, or the number 0 when there is no row or the string is
  empty, and \<^verbatim>\<open>count + 1\<close> is the string followed by \<^verbatim>\<open>1\<close>, or the number 1.
  The method reads the clock three times: \<open>date\<close>, \<open>todayStart\<close>, \<open>todayEnd\<close>.
\<close>

definition DatabaseStorage_createOrder ::
  "('db \<Rightarrow> jsdate \<Rightarrow> jsdate \<Rightarrow> route_error + string list)
     \<Rightarrow> ('db \<Rightarrow> insertOrder \<Rightarrow> (route_error + order) \<times> 'db)
     \<Rightarrow> 'db \<Rightarrow> insertOrder \<Rightarrow> jsdate \<Rightarrow> jsdate \<Rightarrow> jsdate
     \<Rightarrow> (route_error + order) \<times> 'db" where
  "DatabaseStorage_createOrder countQuery insertQuery db insertOrder date todayStart todayEnd =
     (if falsyString (orderNumber insertOrder)
      then
        (let year = substrFromEnd 2 (toString (getFullYear date));
             month = padStart 2 (CHR ''0'') (toString (getMonth date + 1));
             day = padStart 2 (CHR ''0'') (toString (getDate date));
             dateString = year @ month @ day
         in case countQuery db (setHours todayStart 0 0 0 0) (setHours todayEnd 23 59 59 999) of
              Inl err \<Rightarrow> (Inl err, db)
            | Inr todayOrders \<Rightarrow>
                (let countPlusOne =
                       (case todayOrders of
                          [] \<Rightarrow> toString (0 + 1)
                        | c # _ \<Rightarrow> if c \<noteq> [] then c @ toString 1 else toString (0 + 1));
                     sequentialNum = padStart 4 (CHR ''0'') countPlusOne
                 in insertQuery db
                      (insertOrder\<lparr>orderNumber :=
                         Some (''ORD-'' @ dateString @ ''-'' @ sequentialNum)\<rparr>)))
      else insertQuery db insertOrder)"

text \<open>
  \<^verbatim>\<open>DatabaseStorage.createOrderItem\<close> is the insert
  \<^verbatim>\<open>db.insert(orderItems).values(row).returning()\<close> and nothing else.
\<close>

definition DatabaseStorage_createOrderItem ::
  "('db \<Rightarrow> insertOrderItem \<Rightarrow> (route_error + orderItem) \<times> 'db)
     \<Rightarrow> 'db \<Rightarrow> insertOrderItem \<Rightarrow> (route_error + orderItem) \<times> 'db" where
  "DatabaseStorage_createOrderItem insertItemQuery db insertOrderItem =
     insertItemQuery db insertOrderItem"

text \<open>
  \<^verbatim>\<open>MemStorage\<close> behind the same interface: its two methods never fail. The clock
  values and the random number of the one \<^verbatim>\<open>createOrder\<close> call are given.
\<close>

definition MemStorage_createOrder_call ::
  "jsdate \<Rightarrow> jsdate \<Rightarrow> nat \<Rightarrow> memStorage \<Rightarrow> insertOrder \<Rightarrow> (route_error + order) \<times> memStorage" where
  "MemStorage_createOrder_call now date randomInt this insertOrder =
     (case MemStorage_createOrder this insertOrder now date randomInt of
        (ord, this1) \<Rightarrow> (Inr ord, this1))"

definition MemStorage_createOrderItem_call ::
  "memStorage \<Rightarrow> insertOrderItem \<Rightarrow> (route_error + orderItem) \<times> memStorage" where
  "MemStorage_createOrderItem_call this insertOrderItem =
     (case MemStorage_createOrderItem this insertOrderItem of
        (item, this1) \<Rightarrow> (Inr item, this1))"

section \<open>The order route\<close>

text \<open>
  The body of \<^verbatim>\<open>POST /api/orders\<close>. The handler calls \<^verbatim>\<open>storage.createOrder\<close> and
  \<^verbatim>\<open>storage.createOrderItem\<close> of whichever store is wired (\<^verbatim>\<open>storage.ts\<close> exports a
  \<^verbatim>\<open>DatabaseStorage\<close>); the two methods are parameters here, over the store's state.

  A field of the request body is missing, present with a value of the column's type, or
  present with a value the schema rejects. \<^verbatim>\<open>insertOrderSchema\<close> requires the columns
  that are \<^verbatim>\<open>notNull\<close> without a default (\<^verbatim>\<open>orderNumber\<close>, \<^verbatim>\<open>total\<close>,
  \<^verbatim>\<open>createdBy\<close>) and accepts a missing optional one; \<^verbatim>\<open>insertOrderItemSchema\<close>
  requires \<^verbatim>\<open>orderId\<close>, \<^verbatim>\<open>serviceId\<close>, \<^verbatim>\<open>quantity\<close>, \<^verbatim>\<open>unitPrice\<close> and
  \<^verbatim>\<open>amount\<close>. A value the schema rejects fails the parse wherever it stands. (A
  value the schema accepts and the column does not, such as a quantity that is no whole
  number, is not among the values of the model; at run time it fails the insert.)
\<close>

datatype 'a field = Missing | Rejected | Present 'a

record orderData =
  orderNumber_body :: "string field"
  customerName_body :: "string field"
  total_body :: "real field"
  status_body :: "string field"
  createdBy_body :: "nat field"

record itemData =
  orderId_body :: "nat field"
  serviceId_body :: "nat field"
  quantity_body :: "int field"
  unitPrice_body :: "real field"
  amount_body :: "real field"

definition optionalField :: "'a field \<Rightarrow> route_error + 'a option" where
  "optionalField f =
     (case f of Missing \<Rightarrow> Inr None | Rejected \<Rightarrow> Inl ZodError | Present v \<Rightarrow> Inr (Some v))"

definition requiredField :: "'a field \<Rightarrow> route_error + 'a" where
  "requiredField f =
     (case f of Missing \<Rightarrow> Inl ZodError | Rejected \<Rightarrow> Inl ZodError | Present v \<Rightarrow> Inr v)"

definition insertOrderSchema_parse :: "orderData \<Rightarrow> route_error + insertOrder" where
  "insertOrderSchema_parse d =
     bindE (requiredField (orderNumber_body d)) (\<lambda>n.
     bindE (optionalField (customerName_body d)) (\<lambda>c.
     bindE (requiredField (total_body d)) (\<lambda>t.
     bindE (optionalField (status_body d)) (\<lambda>s.
     bindE (requiredField (createdBy_body d)) (\<lambda>u.
       Inr \<lparr>orderNumber = Some n, customerName = c, total = t, status = s,
            createdBy = u\<rparr>)))))"

definition insertOrderItemSchema_parse :: "itemData \<Rightarrow> route_error + insertOrderItem" where
  "insertOrderItemSchema_parse d =
     bindE (requiredField (orderId_body d)) (\<lambda>oid.
     bindE (requiredField (serviceId_body d)) (\<lambda>sid.
     bindE (requiredField (quantity_body d)) (\<lambda>q.
     bindE (requiredField (unitPrice_body d)) (\<lambda>u.
     bindE (requiredField (amount_body d)) (\<lambda>a.
       Inr \<lparr>orderId = Some oid, serviceId = sid, quantity = q, unitPrice = u,
            amount = a\<rparr>)))))"

datatype response =
  Created order "orderItem list"
| ValidationError
| InternalServerError

definition handleZodError :: "route_error \<Rightarrow> response" where
  "handleZodError err =
     (case err of ZodError \<Rightarrow> ValidationError | OtherError \<Rightarrow> InternalServerError)"

text \<open>
  The \<^verbatim>\<open>for (const item of items)\<close> loop. A failed validation or a failed insert
  throws out of the loop: the store keeps what the earlier iterations wrote and what the
  failing call left.
\<close>

fun createOrderItems ::
  "('st \<Rightarrow> insertOrderItem \<Rightarrow> (route_error + orderItem) \<times> 'st)
     \<Rightarrow> 'st \<Rightarrow> nat \<Rightarrow> itemData list \<Rightarrow> orderItem list
     \<Rightarrow> (route_error + orderItem list) \<times> 'st" where
  "createOrderItems createOrderItem storage oid [] orderItemsAcc = (Inr orderItemsAcc, storage)"
| "createOrderItems createOrderItem storage oid (item # items) orderItemsAcc =
     (case insertOrderItemSchema_parse (item\<lparr>orderId_body := Present oid\<rparr>) of
        Inl err \<Rightarrow> (Inl err, storage)
      | Inr validatedItemData \<Rightarrow>
          (case createOrderItem storage validatedItemData of
             (Inl err, storage1) \<Rightarrow> (Inl err, storage1)
           | (Inr orderItem, storage1) \<Rightarrow>
               createOrderItems createOrderItem storage1 oid items
                 (orderItemsAcc @ [orderItem])))"

text \<open>
  \<open>userId\<close> is \<^verbatim>\<open>req.user.id\<close>; \<open>items\<close> is \<open>None\<close> when the body's
  \<^verbatim>\<open>items\<close> is not an array.
\<close>

definition post_api_orders ::
  "('st \<Rightarrow> insertOrder \<Rightarrow> (route_error + order) \<times> 'st)
     \<Rightarrow> ('st \<Rightarrow> insertOrderItem \<Rightarrow> (route_error + orderItem) \<times> 'st)
     \<Rightarrow> 'st \<Rightarrow> nat \<Rightarrow> orderData \<Rightarrow> itemData list option \<Rightarrow> response \<times> 'st" where
  "post_api_orders createOrder createOrderItem storage userId body items =
     (let orderData1 = body\<lparr>createdBy_body := Present userId\<rparr>
      in case insertOrderSchema_parse orderData1 of
           Inl err \<Rightarrow> (handleZodError err, storage)
         | Inr validatedOrderData \<Rightarrow>
             (case createOrder storage validatedOrderData of
                (Inl err, storage1) \<Rightarrow> (handleZodError err, storage1)
              | (Inr ord, storage1) \<Rightarrow>
                  (case (case items of
                           None \<Rightarrow> (Inr [], storage1)
                         | Some its \<Rightarrow>
                             if length its > 0
                             then createOrderItems createOrderItem storage1 (id_order ord) its []
                             else (Inr [], storage1)) of
                     (Inl err, storage2) \<Rightarrow> (handleZodError err, storage2)
                   | (Inr orderItemsDone, storage2) \<Rightarrow>
                       (Created ord orderItemsDone, storage2))))"

section \<open>Pricing rules and price results\<close>

record documentPrintingParams =
  paperSize :: string
  paperType :: string
  copies :: jsval
  colorMode :: string

record tarpaulinPrintingParams =
  width :: jsval
  height :: jsval
  eyelets :: jsval
  rope :: bool
  stand :: bool

record laminationParams =
  size_lam :: string
  quantity :: jsval

record documentAnalysis =
  pageCount :: jsval
  colorPages :: jsval
  bwPages :: jsval

text \<open>The rule objects: every rate and every table can be missing.\<close>

record documentRules =
  colorPageRate :: "real option"
  blackPageRate :: "real option"
  paperTypes :: "(string \<rightharpoonup> real) option"
  paperSizes :: "(string \<rightharpoonup> real) option"
  colorModes :: "(string \<rightharpoonup> real) option"
  basePrice :: "real option"

record tarpaulinRules =
  basePrice :: "real option"
  eyelets :: "real option"
  rope :: "real option"
  stand :: "real option"

record laminationRules =
  sizes :: "(string \<rightharpoonup> real) option"
  basePrice :: "real option"

text \<open>
  A value of the \<^verbatim>\<open>breakdown\<close> object: a value, or the template string
  \<^verbatim>\<open>`${safeWidth} x ${safeHeight} ft`\<close>, kept as the two numbers it interpolates.
\<close>

datatype breakdownValue = BNum jsval | BDimensions jsval jsval

record priceResult =
  unitPrice :: jsval
  total :: jsval
  breakdown :: "(string \<times> breakdownValue) list"

text \<open>\<^verbatim>\<open>defaultPricingRules\<close>.\<close>

definition defaultDocumentRules :: documentRules where
  "defaultDocumentRules =
     \<lparr>colorPageRate = Some 2, blackPageRate = Some 1,
      paperTypes =
        Some [''Standard'' \<mapsto> 0, ''Glossy'' \<mapsto> 1, ''Matte'' \<mapsto> 3 / 2, ''High Quality'' \<mapsto> 2],
      paperSizes =
        Some [''A4'' \<mapsto> 1, ''Letter'' \<mapsto> 21 / 20, ''Long'' \<mapsto> 6 / 5, ''A5'' \<mapsto> 7 / 10],
      colorModes = Some [''Black & White'' \<mapsto> 1, ''Color'' \<mapsto> 2, ''Auto Detect'' \<mapsto> 3 / 2],
      documentRules.basePrice = Some 8\<rparr>"

definition defaultTarpaulinRules :: tarpaulinRules where
  "defaultTarpaulinRules =
     \<lparr>tarpaulinRules.basePrice = Some 25, tarpaulinRules.eyelets = Some 10,
      tarpaulinRules.rope = Some 50, tarpaulinRules.stand = Some 200\<rparr>"

definition defaultLaminationRules :: laminationRules where
  "defaultLaminationRules =
     \<lparr>sizes =
        Some [''ID Size'' \<mapsto> 1, ''Big ID'' \<mapsto> 3 / 2, ''A4'' \<mapsto> 5 / 2, ''Long'' \<mapsto> 2, ''A5'' \<mapsto> 9 / 5],
      laminationRules.basePrice = Some 25\<rparr>"

section \<open>The price calculators\<close>

text \<open>
  \<^verbatim>\<open>x && !isNaN(Number(x)) ? Number(x) : d\<close> is written out at each of its five uses,
  as in the source. \<^verbatim>\<open>key && table[key] !== undefined ? table[key] : d\<close> reads the rule
  object's table and indexes it, twice when the first read is not \<^verbatim>\<open>undefined\<close>, and
  touches neither when the key is the empty string.
\<close>

definition calculateDocumentPrintingPrice ::
  "documentPrintingParams option \<Rightarrow> documentRules jsarg \<Rightarrow> documentAnalysis option
     \<Rightarrow> js_error + priceResult" where
  "calculateDocumentPrintingPrice params rulesArg documentAnalysis =
     (let rules = withDefault defaultDocumentRules rulesArg
      in if \<not> truthyObj params
         then Inr \<lparr>unitPrice = Num 0, total = Num 0, breakdown = []\<rparr>
         else
           bindE (destructure params) (\<lambda>p.
           let copiesCount =
                 (if truthy (copies p) \<and> \<not> isNaN (Number (copies p))
                  then Number (copies p) else Num 1)
           in
           bindE (if paperType p \<noteq> []
                  then bindE (propertyOf rules paperTypes) (\<lambda>table.
                       bindE (indexTable table (paperType p)) (\<lambda>entry.
                         if entry \<noteq> Undefined
                         then bindE (propertyOf rules paperTypes) (\<lambda>table1.
                                indexTable table1 (paperType p))
                         else Inr (Num 0)))
                  else Inr (Num 0)) (\<lambda>paperTypeRate.
           if colorMode p = ''Auto Detect'' \<and> truthyObj documentAnalysis
           then
             bindE (destructure documentAnalysis) (\<lambda>da.
             let colorPagesN = jsOr (colorPages da) (Num 0);
                 bwPagesN = jsOr (bwPages da) (Num 0);
                 totalPages = jsAdd colorPagesN bwPagesN
             in
             bindE (propertyOf rules colorPageRate) (\<lambda>colorRate.
             bindE (propertyOf rules blackPageRate) (\<lambda>blackRate.
             let colorPageRateN = jsAdd (rateValue colorRate) paperTypeRate;
                 blackPageRateN = jsAdd (rateValue blackRate) paperTypeRate;
                 colorPagesTotal = jsMul colorPagesN colorPageRateN;
                 bwPagesTotal = jsMul bwPagesN blackPageRateN;
                 totalPerCopy = jsAdd colorPagesTotal bwPagesTotal;
                 totalN = jsMul totalPerCopy copiesCount;
                 unitPriceN =
                   (if jsGt totalPages (Num 0) then jsDiv totalPerCopy totalPages
                    else Num 0)
             in Inr \<lparr>unitPrice = unitPriceN, total = totalN,
                     breakdown =
                       [(''colorPages'', BNum colorPagesN),
                        (''bwPages'', BNum bwPagesN),
                        (''totalPages'', BNum totalPages),
                        (''colorPageRate'', BNum colorPageRateN),
                        (''blackPageRate'', BNum blackPageRateN),
                        (''colorPagesTotal'', BNum colorPagesTotal),
                        (''bwPagesTotal'', BNum bwPagesTotal),
                        (''totalPerCopy'', BNum totalPerCopy),
                        (''copies'', BNum copiesCount)]\<rparr>)))
           else
             bindE (if colorMode p = ''Color''
                    then bindE (propertyOf rules colorPageRate) (\<lambda>r. Inr (rateValue r))
                    else if colorMode p = ''Black & White''
                    then bindE (propertyOf rules blackPageRate) (\<lambda>r. Inr (rateValue r))
                    else bindE (propertyOf rules colorPageRate) (\<lambda>colorRate.
                         bindE (propertyOf rules blackPageRate) (\<lambda>blackRate.
                           Inr (jsDiv (jsAdd (rateValue colorRate) (rateValue blackRate))
                                  (Num 2))))) (\<lambda>baseRate.
             let pageRate = jsAdd baseRate paperTypeRate;
                 totalPerCopy = pageRate;
                 totalN = jsMul totalPerCopy copiesCount
             in Inr \<lparr>unitPrice = pageRate, total = totalN,
                     breakdown =
                       [(''baseRate'', BNum baseRate),
                        (''paperTypeRate'', BNum paperTypeRate),
                        (''pageRate'', BNum pageRate),
                        (''copies'', BNum copiesCount)]\<rparr>))))"

definition calculateTarpaulinPrintingPrice ::
  "tarpaulinPrintingParams option \<Rightarrow> tarpaulinRules jsarg \<Rightarrow> js_error + priceResult" where
  "calculateTarpaulinPrintingPrice params rulesArg =
     (let rules = withDefault defaultTarpaulinRules rulesArg
      in if \<not> truthyObj params
         then Inr \<lparr>unitPrice = Num 0, total = Num 0, breakdown = []\<rparr>
         else
           bindE (destructure params) (\<lambda>p.
           let safeWidth =
                 (if truthy (width p) \<and> \<not> isNaN (Number (width p))
                  then Number (width p) else Num 0);
               safeHeight =
                 (if truthy (height p) \<and> \<not> isNaN (Number (height p))
                  then Number (height p) else Num 0);
               area = jsMul safeWidth safeHeight
           in
           bindE (propertyOf rules tarpaulinRules.basePrice) (\<lambda>basePriceR.
           let baseCost = jsMul area (rateValue basePriceR);
               safeEyelets =
                 (if truthy (tarpaulinPrintingParams.eyelets p)
                     \<and> \<not> isNaN (Number (tarpaulinPrintingParams.eyelets p))
                  then Number (tarpaulinPrintingParams.eyelets p) else Num 0)
           in
           bindE (propertyOf rules tarpaulinRules.eyelets) (\<lambda>eyeletsR.
           let eyeletCost = jsMul safeEyelets (rateValue eyeletsR)
           in
           bindE (if tarpaulinPrintingParams.rope p
                  then bindE (propertyOf rules tarpaulinRules.rope) (\<lambda>r. Inr (rateValue r))
                  else Inr (Num 0)) (\<lambda>ropeCost.
           bindE (if tarpaulinPrintingParams.stand p
                  then bindE (propertyOf rules tarpaulinRules.stand) (\<lambda>r. Inr (rateValue r))
                  else Inr (Num 0)) (\<lambda>standCost.
           let totalN = jsAdd (jsAdd (jsAdd baseCost eyeletCost) ropeCost) standCost
           in Inr \<lparr>unitPrice = baseCost, total = totalN,
                   breakdown =
                     [(''dimensions'', BDimensions safeWidth safeHeight),
                      (''area'', BNum area),
                      (''baseCost'', BNum baseCost),
                      (''eyeletCost'', BNum eyeletCost),
                      (''eyelets'', BNum safeEyelets),
                      (''ropeCost'', BNum ropeCost),
                      (''standCost'', BNum standCost)]\<rparr>))))))"

definition calculateLaminationPrice ::
  "laminationParams option \<Rightarrow> laminationRules jsarg \<Rightarrow> js_error + priceResult" where
  "calculateLaminationPrice params rulesArg =
     (let rules = withDefault defaultLaminationRules rulesArg
      in if \<not> truthyObj params
         then Inr \<lparr>unitPrice = Num 0, total = Num 0, breakdown = []\<rparr>
         else
           bindE (destructure params) (\<lambda>p.
           bindE (if size_lam p \<noteq> []
                  then bindE (propertyOf rules sizes) (\<lambda>table.
                       bindE (indexTable table (size_lam p)) (\<lambda>entry.
                         if entry \<noteq> Undefined
                         then bindE (propertyOf rules sizes) (\<lambda>table1.
                                indexTable table1 (size_lam p))
                         else Inr (Num 1)))
                  else Inr (Num 1)) (\<lambda>sizeMultiplier.
           let safeQuantity =
                 (if truthy (quantity p) \<and> \<not> isNaN (Number (quantity p))
                  then Number (quantity p) else Num 1)
           in
           bindE (propertyOf rules laminationRules.basePrice) (\<lambda>basePriceR.
           let unitPriceN = jsMul (rateValue basePriceR) sizeMultiplier;
               totalN = jsMul unitPriceN safeQuantity
           in
           bindE (propertyOf rules laminationRules.basePrice) (\<lambda>basePriceR1.
             Inr \<lparr>unitPrice = unitPriceN, total = totalN,
                  breakdown =
                    [(''basePrice'', BNum (rateValue basePriceR1)),
                     (''sizeMultiplier'', BNum sizeMultiplier),
                     (''quantity'', BNum safeQuantity)]\<rparr>)))))"

text \<open>
  A standard service has no rule set: the form's submit handler
  (\<^verbatim>\<open>StandardServiceForm.onSubmit\<close>) takes the service's \<^verbatim>\<open>basePrice\<close> as the unit
  price and multiplies it by the quantity. The pair is (unit price, total).
\<close>

definition standardServicePrice :: "real \<Rightarrow> jsval \<Rightarrow> jsval \<times> jsval" where
  "standardServicePrice servicePrice qty =
     (let unitPriceN = Num servicePrice; totalN = jsMul unitPriceN qty
      in (unitPriceN, totalN))"

section \<open>Comparing totals\<close>

text \<open>
  \<open>totalLeq a b\<close>: both calls returned a price result, both totals are numbers, and the
  first total is at most the second.
\<close>

definition totalLeq :: "js_error + priceResult \<Rightarrow> js_error + priceResult \<Rightarrow> bool" where
  "totalLeq a b =
     (case a of
        Inl _ \<Rightarrow> False
      | Inr ra \<Rightarrow>
          (case b of
             Inl _ \<Rightarrow> False
           | Inr rb \<Rightarrow>
               (case total ra of
                  Num x \<Rightarrow> (case total rb of Num y \<Rightarrow> x \<le> y | _ \<Rightarrow> False)
                | _ \<Rightarrow> False)))"

text \<open>
  \<open>listedOrPlain table key\<close>: the key is one the table holds, or a name that no object
  inherits, so that reading it gives the table's number or \<^verbatim>\<open>undefined\<close>.
\<close>

definition listedOrPlain :: "(string \<rightharpoonup> real) \<Rightarrow> string \<Rightarrow> bool" where
  "listedOrPlain table key = (key \<in> dom table \<or> key \<notin> set objectPrototypeKeys)"

text \<open>The table's number for a key, or \<open>d\<close> when the table has none.\<close>

definition entryOr :: "real \<Rightarrow> (string \<rightharpoonup> real) \<Rightarrow> string \<Rightarrow> real" where
  "entryOr d table key = (case table key of None \<Rightarrow> d | Some v \<Rightarrow> v)"

section \<open>The order-number format\<close>







section \<open>Sample data\<close>

text \<open>
  Inputs for the worked examples: two clock values (1 November 2026, 17:30, and
  2 November 2026, 09:00); an order as a client posts it, with the order number the
  client chose; a request body and a line item.
\<close>

definition dayBefore :: jsdate where
  "dayBefore = \<lparr>getFullYear = 2026, getMonth = 10, getDate = 1, timeOfDay = 63000000\<rparr>"

definition sampleDate :: jsdate where
  "sampleDate = \<lparr>getFullYear = 2026, getMonth = 10, getDate = 2, timeOfDay = 32400000\<rparr>"

definition clientOrder :: "string \<Rightarrow> insertOrder" where
  "clientOrder n =
     \<lparr>orderNumber = Some n, customerName = Some ''Walk-in Customer'', total = 250,
      status = Some ''pending'', createdBy = 2\<rparr>"

definition sampleBody :: orderData where
  "sampleBody =
     \<lparr>orderNumber_body = Present ''ORD-261102-4821'',
      customerName_body = Present ''Walk-in Customer'',
      total_body = Present 250, status_body = Present ''pending'', createdBy_body = Missing\<rparr>"

definition sampleItem :: itemData where
  "sampleItem =
     \<lparr>orderId_body = Missing, serviceId_body = Present 3, quantity_body = Present 10,
      unitPrice_body = Present 25, amount_body = Present 250\<rparr>"

text \<open>
  A stand-in for the PostgreSQL database in the worked examples, following the schema:
  the ids of the rows in \<^verbatim>\<open>users\<close> and \<^verbatim>\<open>services\<close>, the rows of \<^verbatim>\<open>orders\<close> and
  \<^verbatim>\<open>order_items\<close>, their id sequences, and the database's clock.

  The count query returns one row, with the count as a decimal string.
  An insert into \<^verbatim>\<open>orders\<close> takes the next id and fails when \<^verbatim>\<open>order_number\<close> is
  null or already in the table (\<^verbatim>\<open>notNull\<close>, \<^verbatim>\<open>unique\<close>) or \<^verbatim>\<open>created_by\<close> is no
  user's id; otherwise the row is stored with the column defaults filled in
  (\<^verbatim>\<open>customer_name\<close>, \<^verbatim>\<open>status\<close>, \<^verbatim>\<open>created_at\<close>). An insert into
  \<^verbatim>\<open>order_items\<close> takes the next id and fails when \<^verbatim>\<open>order_id\<close> is null or no
  order's id, or \<^verbatim>\<open>service_id\<close> is no service's id. A failed insert stores nothing.
\<close>

record database =
  usersIds :: "nat list"
  servicesIds :: "nat list"
  ordersRows :: "order list"
  orderItemsRows :: "orderItem list"
  ordersIdSeq :: nat
  orderItemsIdSeq :: nat
  databaseNow :: jsdate

definition selectCount :: "database \<Rightarrow> jsdate \<Rightarrow> jsdate \<Rightarrow> route_error + string list" where
  "selectCount db todayStart todayEnd =
     Inr [toString (length (filter (\<lambda>row. dateLess todayStart (createdAt row)
                                          \<and> dateLess (createdAt row) todayEnd)
                              (ordersRows db)))]"

definition insertOrderRow ::
  "database \<Rightarrow> insertOrder \<Rightarrow> (route_error + order) \<times> database" where
  "insertOrderRow db row =
     (let ident = ordersIdSeq db;
          db1 = db\<lparr>ordersIdSeq := ident + 1\<rparr>
      in case orderNumber row of
           None \<Rightarrow> (Inl OtherError, db1)
         | Some n \<Rightarrow>
             if Some n \<in> set (map orderNumber (ordersRows db))
                \<or> createdBy row \<notin> set (usersIds db)
             then (Inl OtherError, db1)
             else
               (let stored =
                      insertOrder.extend
                        (row\<lparr>customerName :=
                               Some (case customerName row of
                                       None \<Rightarrow> ''Walk-in Customer'' | Some c \<Rightarrow> c),
                             status :=
                               Some (case status row of None \<Rightarrow> ''pending'' | Some s \<Rightarrow> s)\<rparr>)
                        \<lparr>id_order = ident, createdAt = databaseNow db\<rparr>
                in (Inr stored, db1\<lparr>ordersRows := ordersRows db1 @ [stored]\<rparr>)))"

definition insertOrderItemRow ::
  "database \<Rightarrow> insertOrderItem \<Rightarrow> (route_error + orderItem) \<times> database" where
  "insertOrderItemRow db row =
     (let ident = orderItemsIdSeq db;
          db1 = db\<lparr>orderItemsIdSeq := ident + 1\<rparr>
      in case orderId row of
           None \<Rightarrow> (Inl OtherError, db1)
         | Some oid \<Rightarrow>
             if oid \<notin> set (map id_order (ordersRows db))
                \<or> serviceId row \<notin> set (servicesIds db)
             then (Inl OtherError, db1)
             else
               (let stored = insertOrderItem.extend row \<lparr>id_item = ident\<rparr>
                in (Inr stored, db1\<lparr>orderItemsRows := orderItemsRows db1 @ [stored]\<rparr>)))"

text \<open>
  A database with two users and four services, no orders yet, whose clock shows
  \<open>now\<close>; and \<^verbatim>\<open>DatabaseStorage\<close> on the stand-in, every clock value being \<open>now\<close>.
\<close>

definition sampleDatabase :: "jsdate \<Rightarrow> database" where
  "sampleDatabase now =
     \<lparr>usersIds = [1, 2], servicesIds = [1, 2, 3, 4], ordersRows = [], orderItemsRows = [],
      ordersIdSeq = 1, orderItemsIdSeq = 1, databaseNow = now\<rparr>"

definition databaseCreateOrder ::
  "jsdate \<Rightarrow> database \<Rightarrow> insertOrder \<Rightarrow> (route_error + order) \<times> database" where
  "databaseCreateOrder now db row =
     DatabaseStorage_createOrder selectCount insertOrderRow (db\<lparr>databaseNow := now\<rparr>) row
       now now now"

definition databaseCreateOrderItem ::
  "database \<Rightarrow> insertOrderItem \<Rightarrow> (route_error + orderItem) \<times> database" where
  "databaseCreateOrderItem db row =
     DatabaseStorage_createOrderItem insertOrderItemRow db row"

section \<open>Closed forms of the calculators\<close>

lemmas js_defs = truthyObj_def destructure_def truthy_def Number_def isNaN_def jsOr_def Let_def
  bindE_def withDefault_def propertyOf_def rateValue_def indexTable_def

lemma bindE_Inr: "bindE (Inr x) f = f x"
  by (simp add: bindE_def)

lemma bindE_Inl: "bindE (Inl e) f = Inl e"
  by (simp add: bindE_def)

lemma totalLeq_Num:
  "totalLeq (Inr ra) (Inr rb) = (\<exists>x y. total ra = Num x \<and> total rb = Num y \<and> x \<le> y)"
  by (auto simp add: totalLeq_def split: jsval.splits)

lemma tableEntry_listed:
  "listedOrPlain table key \<Longrightarrow>
   tableEntry table key = (case table key of None \<Rightarrow> Undefined | Some v \<Rightarrow> Num v)"
  by (auto simp add: listedOrPlain_def tableEntry_def split: option.splits)

lemma tableEntry_inherited:
  "table key = None \<Longrightarrow> key \<in> set objectPrototypeKeys \<Longrightarrow> tableEntry table key = Inherited"
  by (simp add: tableEntry_def)

lemma tarpaulin_total:
  "\<exists>r. calculateTarpaulinPrintingPrice
       (Some \<lparr>width = Num w, height = Num h, tarpaulinPrintingParams.eyelets = Num e,
              tarpaulinPrintingParams.rope = rp, tarpaulinPrintingParams.stand = st\<rparr>)
       (ArgObj \<lparr>tarpaulinRules.basePrice = Some b, tarpaulinRules.eyelets = Some ep,
                tarpaulinRules.rope = Some rpp, tarpaulinRules.stand = Some sp\<rparr>) = Inr r
     \<and> total r = Num (w * h * b + e * ep + (if rp then rpp else 0) + (if st then sp else 0))"
  by (simp add: calculateTarpaulinPrintingPrice_def js_defs)

lemma document_plain_total:
  assumes "colorPageRate rules = Some cr" "blackPageRate rules = Some br"
    and "paperTypes rules = Some table" "listedOrPlain table pt"
  shows "\<exists>r. calculateDocumentPrintingPrice
       (Some \<lparr>paperSize = ps, paperType = pt, copies = Num c, colorMode = cm\<rparr>)
       (ArgObj rules) None = Inr r
     \<and> total r =
         Num (((if cm = ''Color'' then cr
                else if cm = ''Black & White'' then br
                else (cr + br) / 2)
               + (if pt = [] then 0 else entryOr 0 table pt))
              * (if c = 0 then 1 else c))"
  using assms
  by (simp add: calculateDocumentPrintingPrice_def js_defs tableEntry_listed entryOr_def
      split: option.splits)

lemma document_not_auto:
  "colorMode p \<noteq> ''Auto Detect'' \<Longrightarrow>
   calculateDocumentPrintingPrice (Some p) rules (Some da)
     = calculateDocumentPrintingPrice (Some p) rules None"
  by (simp add: calculateDocumentPrintingPrice_def truthyObj_def destructure_def bindE_Inr
      Let_def)

lemma document_auto_total:
  assumes "colorPageRate rules = Some cr" "blackPageRate rules = Some br"
    and "paperTypes rules = Some table" "listedOrPlain table pt"
  shows "\<exists>r. calculateDocumentPrintingPrice
       (Some \<lparr>paperSize = ps, paperType = pt, copies = Num c, colorMode = ''Auto Detect''\<rparr>)
       (ArgObj rules)
       (Some \<lparr>pageCount = pc, colorPages = Num (real cp), bwPages = Num (real bp)\<rparr>) = Inr r
     \<and> total r =
         Num ((real cp * (cr + (if pt = [] then 0 else entryOr 0 table pt))
               + real bp * (br + (if pt = [] then 0 else entryOr 0 table pt)))
              * (if c = 0 then 1 else c))
     \<and> unitPrice r =
         Num ((real cp * (cr + (if pt = [] then 0 else entryOr 0 table pt))
               + real bp * (br + (if pt = [] then 0 else entryOr 0 table pt)))
              / max (real (cp + bp)) 1)"
  using assms
  by (cases "cp = 0"; cases "bp = 0")
     (simp_all add: calculateDocumentPrintingPrice_def js_defs tableEntry_listed entryOr_def
        max_def split: option.splits)

lemma lamination_total:
  assumes "laminationRules.basePrice rules = Some b"
    and "sizes rules = Some table" "listedOrPlain table sz"
  shows "\<exists>r. calculateLaminationPrice (Some \<lparr>size_lam = sz, quantity = Num q\<rparr>) (ArgObj rules)
           = Inr r
     \<and> unitPrice r = Num (b * (if sz = [] then 1 else entryOr 1 table sz))
     \<and> total r = Num (b * (if sz = [] then 1 else entryOr 1 table sz) * (if q = 0 then 1 else q))"
  using assms
  by (simp add: calculateLaminationPrice_def js_defs tableEntry_listed entryOr_def
      split: option.splits)

section \<open>Tarpaulin pricing\<close>

text \<open>
  C6. For a tarpaulin specification with numeric width, height and eyelet count, and a
  rule set with base price, eyelet price, rope price and stand price, the total is
  width * height * basePrice + eyelets * eyeletPrice, plus the rope price if rope is
  included, plus the stand price if a stand is included; the unit price is the
  dimensional base cost width * height * basePrice alone. With the default rules
  (25 per square foot, 10 per eyelet, rope 50, stand 200), passed or left out, a 3 by 4
  tarpaulin with 6 eyelets and rope costs 410.
\<close>

theorem tarpaulin_total_formula:
  "(\<exists>bd. calculateTarpaulinPrintingPrice
       (Some \<lparr>width = Num w, height = Num h, tarpaulinPrintingParams.eyelets = Num e,
              tarpaulinPrintingParams.rope = r, tarpaulinPrintingParams.stand = s\<rparr>)
       (ArgObj \<lparr>tarpaulinRules.basePrice = Some basePriceR,
                tarpaulinRules.eyelets = Some eyeletPrice,
                tarpaulinRules.rope = Some ropePrice,
                tarpaulinRules.stand = Some standPrice\<rparr>)
     = Inr \<lparr>unitPrice = Num (w * h * basePriceR),
            total = Num (w * h * basePriceR + e * eyeletPrice
                         + (if r then ropePrice else 0) + (if s then standPrice else 0)),
            breakdown = bd\<rparr>)
   \<and> (\<exists>bd. calculateTarpaulinPrintingPrice
       (Some \<lparr>width = Num 3, height = Num 4, tarpaulinPrintingParams.eyelets = Num 6,
              tarpaulinPrintingParams.rope = True, tarpaulinPrintingParams.stand = False\<rparr>)
       (ArgObj defaultTarpaulinRules)
     = Inr \<lparr>unitPrice = Num 300, total = Num 410, breakdown = bd\<rparr>)
   \<and> (\<exists>bd. calculateTarpaulinPrintingPrice
       (Some \<lparr>width = Num 3, height = Num 4, tarpaulinPrintingParams.eyelets = Num 6,
              tarpaulinPrintingParams.rope = True, tarpaulinPrintingParams.stand = False\<rparr>)
       ArgUndefined
     = Inr \<lparr>unitPrice = Num 300, total = Num 410, breakdown = bd\<rparr>)"
  by (simp add: calculateTarpaulinPrintingPrice_def js_defs defaultTarpaulinRules_def)

section \<open>Document pricing\<close>

text \<open>
  C5. The formula holds on the claim's example: with the default rules, Glossy paper,
  one copy, 4 colour and 6 black-and-white pages and mode Auto Detect the total is 24
  and the unit price 2.4. It fails for a paper type that names an inherited property:
  for \<^verbatim>\<open>constructor\<close>, which the default table does not list, the claim's surcharge is
  0, its total 14 and its unit price 1.4, but the calculator reads the inherited
  function as the surcharge and returns \<^verbatim>\<open>NaN\<close> for both.
\<close>

theorem auto_detect_inherited_paper_type:
  "calculateDocumentPrintingPrice
     (Some \<lparr>paperSize = ''A4'', paperType = ''constructor'', copies = Num 1,
            colorMode = ''Auto Detect''\<rparr>)
     ArgUndefined
     (Some \<lparr>pageCount = Num 10, colorPages = Num 4, bwPages = Num 6\<rparr>)
   = Inr \<lparr>unitPrice = NaN, total = NaN,
          breakdown =
            [(''colorPages'', BNum (Num 4)),
             (''bwPages'', BNum (Num 6)),
             (''totalPages'', BNum (Num 10)),
             (''colorPageRate'', BNum Text),
             (''blackPageRate'', BNum Text),
             (''colorPagesTotal'', BNum NaN),
             (''bwPagesTotal'', BNum NaN),
             (''totalPerCopy'', BNum NaN),
             (''copies'', BNum (Num 1))]\<rparr>
   \<and> (\<exists>table. paperTypes defaultDocumentRules = Some table \<and> table ''constructor'' = None)
   \<and> (\<exists>bd. calculateDocumentPrintingPrice
         (Some \<lparr>paperSize = ''A4'', paperType = ''Glossy'', copies = Num 1,
                colorMode = ''Auto Detect''\<rparr>)
         ArgUndefined
         (Some \<lparr>pageCount = Num 10, colorPages = Num 4, bwPages = Num 6\<rparr>)
       = Inr \<lparr>unitPrice = Num (24 / 10), total = Num 24, breakdown = bd\<rparr>)"
  by (simp add: calculateDocumentPrintingPrice_def js_defs defaultDocumentRules_def
      tableEntry_def objectPrototypeKeys_def)

section \<open>Neutral defaults\<close>

text \<open>
  C7. A key the table does not list is not always neutral. With the default rules,
  which list neither the size \<^verbatim>\<open>toString\<close> nor the paper type \<^verbatim>\<open>constructor\<close>:
  three laminations of size \<^verbatim>\<open>toString\<close> get the total \<^verbatim>\<open>NaN\<close>, and 75 once the
  table gives that size the multiplier 1; two colour copies on paper \<^verbatim>\<open>constructor\<close>
  get the total \<^verbatim>\<open>NaN\<close>, and 4 once the table gives that paper type the surcharge 0.
  A size that no object inherits (\<^verbatim>\<open>A3\<close>) is neutral: 75 either way.
\<close>

theorem inherited_key_is_not_neutral:
  "(\<exists>table. sizes defaultLaminationRules = Some table \<and> table ''toString'' = None
     \<and> table ''A3'' = None
     \<and> map_sum id total
          (calculateLaminationPrice (Some \<lparr>size_lam = ''toString'', quantity = Num 3\<rparr>)
             (ArgObj defaultLaminationRules)) = Inr NaN
     \<and> map_sum id total
          (calculateLaminationPrice (Some \<lparr>size_lam = ''toString'', quantity = Num 3\<rparr>)
             (ArgObj (defaultLaminationRules\<lparr>sizes := Some (table(''toString'' \<mapsto> 1))\<rparr>)))
         = Inr (Num 75)
     \<and> map_sum id total
          (calculateLaminationPrice (Some \<lparr>size_lam = ''A3'', quantity = Num 3\<rparr>)
             (ArgObj defaultLaminationRules)) = Inr (Num 75)
     \<and> map_sum id total
          (calculateLaminationPrice (Some \<lparr>size_lam = ''A3'', quantity = Num 3\<rparr>)
             (ArgObj (defaultLaminationRules\<lparr>sizes := Some (table(''A3'' \<mapsto> 1))\<rparr>)))
         = Inr (Num 75))
   \<and> (\<exists>table. paperTypes defaultDocumentRules = Some table \<and> table ''constructor'' = None
     \<and> map_sum id total
          (calculateDocumentPrintingPrice
             (Some \<lparr>paperSize = ''A4'', paperType = ''constructor'', copies = Num 2,
                    colorMode = ''Color''\<rparr>)
             (ArgObj defaultDocumentRules) None) = Inr NaN
     \<and> map_sum id total
          (calculateDocumentPrintingPrice
             (Some \<lparr>paperSize = ''A4'', paperType = ''constructor'', copies = Num 2,
                    colorMode = ''Color''\<rparr>)
             (ArgObj (defaultDocumentRules\<lparr>paperTypes := Some (table(''constructor'' \<mapsto> 0))\<rparr>))
             None) = Inr (Num 4))"
  by (simp add: calculateLaminationPrice_def calculateDocumentPrintingPrice_def js_defs
      defaultLaminationRules_def defaultDocumentRules_def tableEntry_def
      objectPrototypeKeys_def)

section \<open>Malformed input\<close>

text \<open>
  C10. The calculators do raise. A lamination of size A4 priced with a rule object that
  has no \<^verbatim>\<open>sizes\<close> table (the empty object) or with \<^verbatim>\<open>null\<close> rules throws a
  \<^verbatim>\<open>TypeError\<close>, and so does a document on Glossy paper priced with the empty rule
  object, and a tarpaulin priced with \<^verbatim>\<open>null\<close> rules. The guard on the parameter
  object does what the claim says: without parameters the same rule arguments give the
  zero result.
\<close>

theorem rules_without_table_throw:
  "calculateLaminationPrice (Some \<lparr>size_lam = ''A4'', quantity = Num 1\<rparr>)
     (ArgObj \<lparr>sizes = None, laminationRules.basePrice = None\<rparr>) = Inl TypeError
   \<and> calculateLaminationPrice (Some \<lparr>size_lam = ''A4'', quantity = Num 1\<rparr>) ArgNull
     = Inl TypeError
   \<and> calculateDocumentPrintingPrice
       (Some \<lparr>paperSize = ''A4'', paperType = ''Glossy'', copies = Num 1,
              colorMode = ''Color''\<rparr>)
       (ArgObj \<lparr>colorPageRate = None, blackPageRate = None, paperTypes = None,
                paperSizes = None, colorModes = None, documentRules.basePrice = None\<rparr>)
       None = Inl TypeError
   \<and> calculateTarpaulinPrintingPrice
       (Some \<lparr>width = Num 3, height = Num 4, tarpaulinPrintingParams.eyelets = Num 6,
              tarpaulinPrintingParams.rope = True, tarpaulinPrintingParams.stand = False\<rparr>)
       ArgNull = Inl TypeError
   \<and> calculateLaminationPrice None (ArgObj \<lparr>sizes = None, laminationRules.basePrice = None\<rparr>)
     = Inr \<lparr>unitPrice = Num 0, total = Num 0, breakdown = []\<rparr>
   \<and> calculateLaminationPrice None ArgNull
     = Inr \<lparr>unitPrice = Num 0, total = Num 0, breakdown = []\<rparr>
   \<and> calculateTarpaulinPrintingPrice None ArgNull
     = Inr \<lparr>unitPrice = Num 0, total = Num 0, breakdown = []\<rparr>"
  by (simp add: calculateLaminationPrice_def calculateDocumentPrintingPrice_def
      calculateTarpaulinPrintingPrice_def js_defs)

section \<open>Invalid specifications\<close>

text \<open>
  C4, as the claim states it, fails: with the default rules a tarpaulin of width -3 is
  priced (at -300) and a lamination of quantity 0 is priced as one piece; no error is
  returned.
\<close>

theorem invalid_specification_counterexample:
  "calculateTarpaulinPrintingPrice
     (Some \<lparr>width = Num (- 3), height = Num 4, tarpaulinPrintingParams.eyelets = Num 0,
            tarpaulinPrintingParams.rope = False, tarpaulinPrintingParams.stand = False\<rparr>)
     ArgUndefined
   = Inr \<lparr>unitPrice = Num (- 300), total = Num (- 300),
          breakdown =
            [(''dimensions'', BDimensions (Num (- 3)) (Num 4)),
             (''area'', BNum (Num (- 12))),
             (''baseCost'', BNum (Num (- 300))),
             (''eyeletCost'', BNum (Num 0)),
             (''eyelets'', BNum (Num 0)),
             (''ropeCost'', BNum (Num 0)),
             (''standCost'', BNum (Num 0))]\<rparr>
   \<and> calculateLaminationPrice (Some \<lparr>size_lam = ''ID Size'', quantity = Num 0\<rparr>)
       ArgUndefined
   = Inr \<lparr>unitPrice = Num 25, total = Num 25,
          breakdown =
            [(''basePrice'', BNum (Num 25)),
             (''sizeMultiplier'', BNum (Num 1)),
             (''quantity'', BNum (Num 1))]\<rparr>"
  by (simp add: calculateTarpaulinPrintingPrice_def calculateLaminationPrice_def js_defs
      defaultTarpaulinRules_def defaultLaminationRules_def tableEntry_def)

text \<open>
  C4, amended. The calculators have no validation error. Given a rule object that holds
  the rates and the table the calculator reads, and a size or paper type that the table
  lists or that is no inherited property name, every tarpaulin, lamination and document
  specification gets a price result: a width, height or eyelet count that is 0,
  \<^verbatim>\<open>NaN\<close> or missing counts as 0, a copies or quantity value that is 0, \<^verbatim>\<open>NaN\<close> or
  missing counts as 1, and a negative value enters the formula as it is.
\<close>

theorem invalid_specification_is_priced:
  "(let safeWidth = (case width t of Num x \<Rightarrow> x | _ \<Rightarrow> 0);
        safeHeight = (case height t of Num x \<Rightarrow> x | _ \<Rightarrow> 0);
        safeEyelets = (case tarpaulinPrintingParams.eyelets t of Num x \<Rightarrow> x | _ \<Rightarrow> 0)
    in \<exists>r. calculateTarpaulinPrintingPrice (Some t)
              (ArgObj \<lparr>tarpaulinRules.basePrice = Some basePriceR,
                       tarpaulinRules.eyelets = Some eyeletPrice,
                       tarpaulinRules.rope = Some ropePrice,
                       tarpaulinRules.stand = Some standPrice\<rparr>) = Inr r
         \<and> unitPrice r = Num (safeWidth * safeHeight * basePriceR)
         \<and> total r =
             Num (safeWidth * safeHeight * basePriceR + safeEyelets * eyeletPrice
                  + (if tarpaulinPrintingParams.rope t then ropePrice else 0)
                  + (if tarpaulinPrintingParams.stand t then standPrice else 0)))
   \<and> (laminationRules.basePrice lrules = Some lbase \<and> sizes lrules = Some ltable
       \<and> listedOrPlain ltable (size_lam l) \<longrightarrow>
       (let safeQuantity = (case quantity l of Num x \<Rightarrow> if x = 0 then 1 else x | _ \<Rightarrow> 1);
            sizeMultiplier = (if size_lam l = [] then 1 else entryOr 1 ltable (size_lam l))
        in \<exists>r. calculateLaminationPrice (Some l) (ArgObj lrules) = Inr r
             \<and> total r = Num (lbase * sizeMultiplier * safeQuantity)))
   \<and> (colorPageRate drules = Some colorRate \<and> blackPageRate drules = Some blackRate
       \<and> paperTypes drules = Some dtable \<and> listedOrPlain dtable (paperType d) \<longrightarrow>
       (let copiesCount = (case copies d of Num x \<Rightarrow> if x = 0 then 1 else x | _ \<Rightarrow> 1);
            pageRate =
              (if colorMode d = ''Color'' then colorRate
               else if colorMode d = ''Black & White'' then blackRate
               else (colorRate + blackRate) / 2)
              + (if paperType d = [] then 0 else entryOr 0 dtable (paperType d))
        in \<exists>r. calculateDocumentPrintingPrice (Some d) (ArgObj drules) None = Inr r
             \<and> total r = Num (pageRate * copiesCount))
       \<and> (\<exists>r. calculateDocumentPrintingPrice (Some d) (ArgObj drules) a = Inr r))"
proof -
  have tarp: "\<exists>r. calculateTarpaulinPrintingPrice (Some t)
              (ArgObj \<lparr>tarpaulinRules.basePrice = Some basePriceR,
                       tarpaulinRules.eyelets = Some eyeletPrice,
                       tarpaulinRules.rope = Some ropePrice,
                       tarpaulinRules.stand = Some standPrice\<rparr>) = Inr r
         \<and> unitPrice r = Num ((case width t of Num x \<Rightarrow> x | _ \<Rightarrow> 0)
               * (case height t of Num x \<Rightarrow> x | _ \<Rightarrow> 0) * basePriceR)
         \<and> total r =
             Num ((case width t of Num x \<Rightarrow> x | _ \<Rightarrow> 0)
                  * (case height t of Num x \<Rightarrow> x | _ \<Rightarrow> 0) * basePriceR
                  + (case tarpaulinPrintingParams.eyelets t of Num x \<Rightarrow> x | _ \<Rightarrow> 0)
                    * eyeletPrice
                  + (if tarpaulinPrintingParams.rope t then ropePrice else 0)
                  + (if tarpaulinPrintingParams.stand t then standPrice else 0))"
    by (cases "width t"; cases "height t"; cases "tarpaulinPrintingParams.eyelets t")
       (simp_all add: calculateTarpaulinPrintingPrice_def js_defs)
  have lam: "\<exists>r. calculateLaminationPrice (Some l) (ArgObj lrules) = Inr r
             \<and> total r = Num (lbase
                 * (if size_lam l = [] then 1 else entryOr 1 ltable (size_lam l))
                 * (case quantity l of Num x \<Rightarrow> if x = 0 then 1 else x | _ \<Rightarrow> 1))"
    if "laminationRules.basePrice lrules = Some lbase \<and> sizes lrules = Some ltable
       \<and> listedOrPlain ltable (size_lam l)"
    using that
    by (cases "quantity l")
       (simp_all add: calculateLaminationPrice_def js_defs tableEntry_listed entryOr_def
          split: option.splits)
  have doc: "\<exists>r. calculateDocumentPrintingPrice (Some d) (ArgObj drules) None = Inr r
             \<and> total r = Num (((if colorMode d = ''Color'' then colorRate
               else if colorMode d = ''Black & White'' then blackRate
               else (colorRate + blackRate) / 2)
              + (if paperType d = [] then 0 else entryOr 0 dtable (paperType d)))
              * (case copies d of Num x \<Rightarrow> if x = 0 then 1 else x | _ \<Rightarrow> 1))"
    if "colorPageRate drules = Some colorRate \<and> blackPageRate drules = Some blackRate
       \<and> paperTypes drules = Some dtable \<and> listedOrPlain dtable (paperType d)"
    using that
    by (cases "copies d")
       (simp_all add: calculateDocumentPrintingPrice_def js_defs tableEntry_listed entryOr_def
          split: option.splits)
  have any: "\<exists>r. calculateDocumentPrintingPrice (Some d) (ArgObj drules) a = Inr r"
    if "colorPageRate drules = Some colorRate \<and> blackPageRate drules = Some blackRate
       \<and> paperTypes drules = Some dtable \<and> listedOrPlain dtable (paperType d)"
    using that
    by (cases a)
       (simp_all add: calculateDocumentPrintingPrice_def js_defs tableEntry_listed
          split: option.splits)
  from tarp lam doc any show ?thesis
    by (simp only: Let_def) blast
qed

theorem invalid_specification_is_priced_witness:
  "(\<exists>r. calculateTarpaulinPrintingPrice
          (Some \<lparr>width = Num (- 3), height = NaN, tarpaulinPrintingParams.eyelets = Undefined,
                 tarpaulinPrintingParams.rope = True, tarpaulinPrintingParams.stand = False\<rparr>)
          (ArgObj defaultTarpaulinRules) = Inr r
      \<and> unitPrice r = Num 0 \<and> total r = Num 50)
   \<and> laminationRules.basePrice defaultLaminationRules = Some 25
   \<and> listedOrPlain (the (sizes defaultLaminationRules)) ''A3''
   \<and> (\<exists>r. calculateLaminationPrice (Some \<lparr>size_lam = ''A3'', quantity = Num (- 2)\<rparr>)
          (ArgObj defaultLaminationRules) = Inr r
      \<and> total r = Num (- 50))
   \<and> colorPageRate defaultDocumentRules = Some 2 \<and> blackPageRate defaultDocumentRules = Some 1
   \<and> listedOrPlain (the (paperTypes defaultDocumentRules)) ''Matte''
   \<and> (\<exists>r. calculateDocumentPrintingPrice
          (Some \<lparr>paperSize = ''A4'', paperType = ''Matte'', copies = Num 0,
                 colorMode = ''Color''\<rparr>)
          (ArgObj defaultDocumentRules) None = Inr r
      \<and> total r = Num (7 / 2))"
proof -
  have sz: "listedOrPlain (the (sizes defaultLaminationRules)) ''A3''"
    by (simp add: listedOrPlain_def defaultLaminationRules_def objectPrototypeKeys_def)
  have pt: "listedOrPlain (the (paperTypes defaultDocumentRules)) ''Matte''"
    by (simp add: listedOrPlain_def defaultDocumentRules_def)
  from invalid_specification_is_priced
    [where t = "\<lparr>width = Num (- 3), height = NaN, tarpaulinPrintingParams.eyelets = Undefined,
                 tarpaulinPrintingParams.rope = True, tarpaulinPrintingParams.stand = False\<rparr>"
       and basePriceR = 25 and eyeletPrice = 10 and ropePrice = 50 and standPrice = 200
       and lrules = defaultLaminationRules and lbase = 25
       and ltable = "the (sizes defaultLaminationRules)"
       and l = "\<lparr>size_lam = ''A3'', quantity = Num (- 2)\<rparr>"
       and drules = defaultDocumentRules and colorRate = 2 and blackRate = 1
       and dtable = "the (paperTypes defaultDocumentRules)"
       and d = "\<lparr>paperSize = ''A4'', paperType = ''Matte'', copies = Num 0,
                 colorMode = ''Color''\<rparr>"
       and a = None] sz pt
  show ?thesis
    by (simp add: defaultTarpaulinRules_def defaultLaminationRules_def defaultDocumentRules_def
        entryOr_def Let_def)
qed

section \<open>Monotonicity\<close>

lemma mono_tarpaulin:
  assumes "w * h * b + eLo * ep + (if rLo then rpp else 0) + (if sLo then sp else 0)
           \<le> w * h * b + eHi * ep + (if rHi then rpp else 0) + (if sHi then sp else 0)"
  shows "totalLeq
     (calculateTarpaulinPrintingPrice
        (Some \<lparr>width = Num w, height = Num h, tarpaulinPrintingParams.eyelets = Num eLo,
               tarpaulinPrintingParams.rope = rLo, tarpaulinPrintingParams.stand = sLo\<rparr>)
        (ArgObj \<lparr>tarpaulinRules.basePrice = Some b, tarpaulinRules.eyelets = Some ep,
                 tarpaulinRules.rope = Some rpp, tarpaulinRules.stand = Some sp\<rparr>))
     (calculateTarpaulinPrintingPrice
        (Some \<lparr>width = Num w, height = Num h, tarpaulinPrintingParams.eyelets = Num eHi,
               tarpaulinPrintingParams.rope = rHi, tarpaulinPrintingParams.stand = sHi\<rparr>)
        (ArgObj \<lparr>tarpaulinRules.basePrice = Some b, tarpaulinRules.eyelets = Some ep,
                 tarpaulinRules.rope = Some rpp, tarpaulinRules.stand = Some sp\<rparr>))"
proof -
  obtain ra where ra: "calculateTarpaulinPrintingPrice
        (Some \<lparr>width = Num w, height = Num h, tarpaulinPrintingParams.eyelets = Num eLo,
               tarpaulinPrintingParams.rope = rLo, tarpaulinPrintingParams.stand = sLo\<rparr>)
        (ArgObj \<lparr>tarpaulinRules.basePrice = Some b, tarpaulinRules.eyelets = Some ep,
                 tarpaulinRules.rope = Some rpp, tarpaulinRules.stand = Some sp\<rparr>)
        = Inr ra"
      "total ra = Num (w * h * b + eLo * ep + (if rLo then rpp else 0)
                       + (if sLo then sp else 0))"
    using tarpaulin_total by blast
  obtain rb where rb: "calculateTarpaulinPrintingPrice
        (Some \<lparr>width = Num w, height = Num h, tarpaulinPrintingParams.eyelets = Num eHi,
               tarpaulinPrintingParams.rope = rHi, tarpaulinPrintingParams.stand = sHi\<rparr>)
        (ArgObj \<lparr>tarpaulinRules.basePrice = Some b, tarpaulinRules.eyelets = Some ep,
                 tarpaulinRules.rope = Some rpp, tarpaulinRules.stand = Some sp\<rparr>)
        = Inr rb"
      "total rb = Num (w * h * b + eHi * ep + (if rHi then rpp else 0)
                       + (if sHi then sp else 0))"
    using tarpaulin_total by blast
  from ra rb assms show ?thesis by (simp add: totalLeq_Num)
qed

lemma mono_copies_plain:
  assumes rules: "colorPageRate rules = Some cr" "blackPageRate rules = Some br"
      "paperTypes rules = Some table" "listedOrPlain table pt"
    and sign: "0 \<le> cr" "0 \<le> br" "0 \<le> entryOr 0 table pt"
    and copies: "0 < cLo" "cLo \<le> cHi"
  shows "totalLeq
     (calculateDocumentPrintingPrice
        (Some \<lparr>paperSize = ps, paperType = pt, copies = Num cLo, colorMode = cm\<rparr>)
        (ArgObj rules) None)
     (calculateDocumentPrintingPrice
        (Some \<lparr>paperSize = ps, paperType = pt, copies = Num cHi, colorMode = cm\<rparr>)
        (ArgObj rules) None)"
proof -
  define rate where "rate = (if cm = ''Color'' then cr
                else if cm = ''Black & White'' then br
                else (cr + br) / 2)
               + (if pt = [] then 0 else entryOr 0 table pt)"
  have nonneg: "0 \<le> rate"
    using sign by (simp add: rate_def)
  obtain ra where ra: "calculateDocumentPrintingPrice
        (Some \<lparr>paperSize = ps, paperType = pt, copies = Num cLo, colorMode = cm\<rparr>)
        (ArgObj rules) None = Inr ra" "total ra = Num (rate * (if cLo = 0 then 1 else cLo))"
    unfolding rate_def using document_plain_total [OF rules] by blast
  obtain rb where rb: "calculateDocumentPrintingPrice
        (Some \<lparr>paperSize = ps, paperType = pt, copies = Num cHi, colorMode = cm\<rparr>)
        (ArgObj rules) None = Inr rb" "total rb = Num (rate * (if cHi = 0 then 1 else cHi))"
    unfolding rate_def using document_plain_total [OF rules] by blast
  from ra rb copies nonneg show ?thesis
    by (simp add: totalLeq_Num mult_left_mono)
qed

lemma mono_copies_auto:
  assumes rules: "colorPageRate rules = Some cr" "blackPageRate rules = Some br"
      "paperTypes rules = Some table" "listedOrPlain table pt"
    and sign: "0 \<le> cr" "0 \<le> br" "0 \<le> entryOr 0 table pt"
    and copies: "0 < cLo" "cLo \<le> cHi"
  shows "totalLeq
     (calculateDocumentPrintingPrice
        (Some \<lparr>paperSize = ps, paperType = pt, copies = Num cLo, colorMode = ''Auto Detect''\<rparr>)
        (ArgObj rules)
        (Some \<lparr>pageCount = pc, colorPages = Num (real cp), bwPages = Num (real bp)\<rparr>))
     (calculateDocumentPrintingPrice
        (Some \<lparr>paperSize = ps, paperType = pt, copies = Num cHi, colorMode = ''Auto Detect''\<rparr>)
        (ArgObj rules)
        (Some \<lparr>pageCount = pc, colorPages = Num (real cp), bwPages = Num (real bp)\<rparr>))"
proof -
  define s where "s = (if pt = [] then 0 else entryOr 0 table pt)"
  define perCopy where "perCopy = real cp * (cr + s) + real bp * (br + s)"
  have "0 \<le> s"
    using sign by (simp add: s_def)
  with sign have nonneg: "0 \<le> perCopy"
    by (simp add: perCopy_def)
  obtain ra where ra: "calculateDocumentPrintingPrice
        (Some \<lparr>paperSize = ps, paperType = pt, copies = Num cLo, colorMode = ''Auto Detect''\<rparr>)
        (ArgObj rules)
        (Some \<lparr>pageCount = pc, colorPages = Num (real cp), bwPages = Num (real bp)\<rparr>)
        = Inr ra" "total ra = Num (perCopy * (if cLo = 0 then 1 else cLo))"
    unfolding perCopy_def s_def using document_auto_total [OF rules] by blast
  obtain rb where rb: "calculateDocumentPrintingPrice
        (Some \<lparr>paperSize = ps, paperType = pt, copies = Num cHi, colorMode = ''Auto Detect''\<rparr>)
        (ArgObj rules)
        (Some \<lparr>pageCount = pc, colorPages = Num (real cp), bwPages = Num (real bp)\<rparr>)
        = Inr rb" "total rb = Num (perCopy * (if cHi = 0 then 1 else cHi))"
    unfolding perCopy_def s_def using document_auto_total [OF rules] by blast
  from ra rb copies nonneg show ?thesis
    by (simp add: totalLeq_Num mult_left_mono)
qed

lemma mono_quantity_lamination:
  assumes rules: "laminationRules.basePrice rules = Some b" "sizes rules = Some table"
      "listedOrPlain table sz"
    and sign: "0 \<le> b" "0 \<le> entryOr 1 table sz"
    and qty: "0 < qLo" "qLo \<le> qHi"
  shows "totalLeq
     (calculateLaminationPrice (Some \<lparr>size_lam = sz, quantity = Num qLo\<rparr>) (ArgObj rules))
     (calculateLaminationPrice (Some \<lparr>size_lam = sz, quantity = Num qHi\<rparr>) (ArgObj rules))"
proof -
  define unit where "unit = b * (if sz = [] then 1 else entryOr 1 table sz)"
  have nonneg: "0 \<le> unit"
    using sign by (simp add: unit_def)
  obtain ra where ra: "calculateLaminationPrice (Some \<lparr>size_lam = sz, quantity = Num qLo\<rparr>)
        (ArgObj rules) = Inr ra" "total ra = Num (unit * (if qLo = 0 then 1 else qLo))"
    unfolding unit_def using lamination_total [OF rules] by blast
  obtain rb where rb: "calculateLaminationPrice (Some \<lparr>size_lam = sz, quantity = Num qHi\<rparr>)
        (ArgObj rules) = Inr rb" "total rb = Num (unit * (if qHi = 0 then 1 else qHi))"
    unfolding unit_def using lamination_total [OF rules] by blast
  from ra rb qty nonneg show ?thesis
    by (simp add: totalLeq_Num mult_left_mono)
qed

text \<open>
  C8, as the claim states it (for every rule set), fails: the calculators take the rates
  as they are, and with an eyelet price of -10 a 3 by 4 tarpaulin costs 260 with 4
  eyelets and 240 with 6.
\<close>

theorem price_monotone_counterexample:
  "map_sum id total
     (calculateTarpaulinPrintingPrice
           (Some \<lparr>width = Num 3, height = Num 4, tarpaulinPrintingParams.eyelets = Num 4,
                  tarpaulinPrintingParams.rope = False, tarpaulinPrintingParams.stand = False\<rparr>)
           (ArgObj \<lparr>tarpaulinRules.basePrice = Some 25, tarpaulinRules.eyelets = Some (- 10),
                    tarpaulinRules.rope = Some 50, tarpaulinRules.stand = Some 200\<rparr>))
     = Inr (Num 260)
   \<and> map_sum id total
     (calculateTarpaulinPrintingPrice
           (Some \<lparr>width = Num 3, height = Num 4, tarpaulinPrintingParams.eyelets = Num 6,
                  tarpaulinPrintingParams.rope = False, tarpaulinPrintingParams.stand = False\<rparr>)
           (ArgObj \<lparr>tarpaulinRules.basePrice = Some 25, tarpaulinRules.eyelets = Some (- 10),
                    tarpaulinRules.rope = Some 50, tarpaulinRules.stand = Some 200\<rparr>))
     = Inr (Num 240)"
  by (simp add: calculateTarpaulinPrintingPrice_def js_defs)

text \<open>
  C8, amended. For a rule object that holds the rates and the table the calculator
  reads, with no negative value among them, and a paper type or size that the table
  lists or that is no inherited property name: a tarpaulin's total does not decrease
  when the eyelet count grows or when rope or stand is switched on; a document's total
  does not decrease when a positive number of copies grows (with or without a page
  analysis of natural page counts); a lamination's total does not decrease when a
  positive quantity grows; a standard service's total does not decrease when the
  quantity grows.
\<close>

theorem price_monotone:
  "(0 \<le> eyeletPrice \<and> eLo \<le> eHi \<longrightarrow>
      totalLeq
        (calculateTarpaulinPrintingPrice
           (Some \<lparr>width = Num w, height = Num h, tarpaulinPrintingParams.eyelets = Num eLo,
                  tarpaulinPrintingParams.rope = rp, tarpaulinPrintingParams.stand = st\<rparr>)
           (ArgObj \<lparr>tarpaulinRules.basePrice = Some basePriceR,
                    tarpaulinRules.eyelets = Some eyeletPrice,
                    tarpaulinRules.rope = Some ropePrice,
                    tarpaulinRules.stand = Some standPrice\<rparr>))
        (calculateTarpaulinPrintingPrice
           (Some \<lparr>width = Num w, height = Num h, tarpaulinPrintingParams.eyelets = Num eHi,
                  tarpaulinPrintingParams.rope = rp, tarpaulinPrintingParams.stand = st\<rparr>)
           (ArgObj \<lparr>tarpaulinRules.basePrice = Some basePriceR,
                    tarpaulinRules.eyelets = Some eyeletPrice,
                    tarpaulinRules.rope = Some ropePrice,
                    tarpaulinRules.stand = Some standPrice\<rparr>)))
   \<and> (0 \<le> ropePrice \<longrightarrow>
      totalLeq
        (calculateTarpaulinPrintingPrice
           (Some \<lparr>width = Num w, height = Num h, tarpaulinPrintingParams.eyelets = Num eLo,
                  tarpaulinPrintingParams.rope = False, tarpaulinPrintingParams.stand = st\<rparr>)
           (ArgObj \<lparr>tarpaulinRules.basePrice = Some basePriceR,
                    tarpaulinRules.eyelets = Some eyeletPrice,
                    tarpaulinRules.rope = Some ropePrice,
                    tarpaulinRules.stand = Some standPrice\<rparr>))
        (calculateTarpaulinPrintingPrice
           (Some \<lparr>width = Num w, height = Num h, tarpaulinPrintingParams.eyelets = Num eLo,
                  tarpaulinPrintingParams.rope = True, tarpaulinPrintingParams.stand = st\<rparr>)
           (ArgObj \<lparr>tarpaulinRules.basePrice = Some basePriceR,
                    tarpaulinRules.eyelets = Some eyeletPrice,
                    tarpaulinRules.rope = Some ropePrice,
                    tarpaulinRules.stand = Some standPrice\<rparr>)))
   \<and> (0 \<le> standPrice \<longrightarrow>
      totalLeq
        (calculateTarpaulinPrintingPrice
           (Some \<lparr>width = Num w, height = Num h, tarpaulinPrintingParams.eyelets = Num eLo,
                  tarpaulinPrintingParams.rope = rp, tarpaulinPrintingParams.stand = False\<rparr>)
           (ArgObj \<lparr>tarpaulinRules.basePrice = Some basePriceR,
                    tarpaulinRules.eyelets = Some eyeletPrice,
                    tarpaulinRules.rope = Some ropePrice,
                    tarpaulinRules.stand = Some standPrice\<rparr>))
        (calculateTarpaulinPrintingPrice
           (Some \<lparr>width = Num w, height = Num h, tarpaulinPrintingParams.eyelets = Num eLo,
                  tarpaulinPrintingParams.rope = rp, tarpaulinPrintingParams.stand = True\<rparr>)
           (ArgObj \<lparr>tarpaulinRules.basePrice = Some basePriceR,
                    tarpaulinRules.eyelets = Some eyeletPrice,
                    tarpaulinRules.rope = Some ropePrice,
                    tarpaulinRules.stand = Some standPrice\<rparr>)))
   \<and> (colorPageRate drules = Some colorRate \<and> blackPageRate drules = Some blackRate
       \<and> paperTypes drules = Some dtable \<and> listedOrPlain dtable pt
       \<and> 0 \<le> colorRate \<and> 0 \<le> blackRate \<and> 0 \<le> entryOr 0 dtable pt
       \<and> 0 < cLo \<and> cLo \<le> cHi \<longrightarrow>
      totalLeq
        (calculateDocumentPrintingPrice
           (Some \<lparr>paperSize = ps, paperType = pt, copies = Num cLo, colorMode = cm\<rparr>)
           (ArgObj drules) None)
        (calculateDocumentPrintingPrice
           (Some \<lparr>paperSize = ps, paperType = pt, copies = Num cHi, colorMode = cm\<rparr>)
           (ArgObj drules) None)
      \<and> totalLeq
        (calculateDocumentPrintingPrice
           (Some \<lparr>paperSize = ps, paperType = pt, copies = Num cLo, colorMode = cm\<rparr>)
           (ArgObj drules) (Some \<lparr>pageCount = pc, colorPages = Num (real colorPgs), bwPages = Num (real bwPgs)\<rparr>))
        (calculateDocumentPrintingPrice
           (Some \<lparr>paperSize = ps, paperType = pt, copies = Num cHi, colorMode = cm\<rparr>)
           (ArgObj drules) (Some \<lparr>pageCount = pc, colorPages = Num (real colorPgs), bwPages = Num (real bwPgs)\<rparr>)))
   \<and> (laminationRules.basePrice lrules = Some lbase \<and> sizes lrules = Some ltable
       \<and> listedOrPlain ltable sz \<and> 0 \<le> lbase \<and> 0 \<le> entryOr 1 ltable sz
       \<and> 0 < qLo \<and> qLo \<le> qHi \<longrightarrow>
      totalLeq
        (calculateLaminationPrice (Some \<lparr>size_lam = sz, quantity = Num qLo\<rparr>) (ArgObj lrules))
        (calculateLaminationPrice (Some \<lparr>size_lam = sz, quantity = Num qHi\<rparr>) (ArgObj lrules)))
   \<and> (0 \<le> servicePrice \<and> nLo \<le> nHi \<longrightarrow>
      (\<exists>tLo tHi. snd (standardServicePrice servicePrice (Num nLo)) = Num tLo
         \<and> snd (standardServicePrice servicePrice (Num nHi)) = Num tHi \<and> tLo \<le> tHi))"
proof -
  have t1: "0 \<le> eyeletPrice \<and> eLo \<le> eHi \<longrightarrow>
      totalLeq
        (calculateTarpaulinPrintingPrice
           (Some \<lparr>width = Num w, height = Num h, tarpaulinPrintingParams.eyelets = Num eLo,
                  tarpaulinPrintingParams.rope = rp, tarpaulinPrintingParams.stand = st\<rparr>)
           (ArgObj \<lparr>tarpaulinRules.basePrice = Some basePriceR,
                    tarpaulinRules.eyelets = Some eyeletPrice,
                    tarpaulinRules.rope = Some ropePrice,
                    tarpaulinRules.stand = Some standPrice\<rparr>))
        (calculateTarpaulinPrintingPrice
           (Some \<lparr>width = Num w, height = Num h, tarpaulinPrintingParams.eyelets = Num eHi,
                  tarpaulinPrintingParams.rope = rp, tarpaulinPrintingParams.stand = st\<rparr>)
           (ArgObj \<lparr>tarpaulinRules.basePrice = Some basePriceR,
                    tarpaulinRules.eyelets = Some eyeletPrice,
                    tarpaulinRules.rope = Some ropePrice,
                    tarpaulinRules.stand = Some standPrice\<rparr>))"
  proof
    assume "0 \<le> eyeletPrice \<and> eLo \<le> eHi"
    then have "eLo * eyeletPrice \<le> eHi * eyeletPrice"
      by (simp add: mult_right_mono)
    then show "totalLeq
        (calculateTarpaulinPrintingPrice
           (Some \<lparr>width = Num w, height = Num h, tarpaulinPrintingParams.eyelets = Num eLo,
                  tarpaulinPrintingParams.rope = rp, tarpaulinPrintingParams.stand = st\<rparr>)
           (ArgObj \<lparr>tarpaulinRules.basePrice = Some basePriceR,
                    tarpaulinRules.eyelets = Some eyeletPrice,
                    tarpaulinRules.rope = Some ropePrice,
                    tarpaulinRules.stand = Some standPrice\<rparr>))
        (calculateTarpaulinPrintingPrice
           (Some \<lparr>width = Num w, height = Num h, tarpaulinPrintingParams.eyelets = Num eHi,
                  tarpaulinPrintingParams.rope = rp, tarpaulinPrintingParams.stand = st\<rparr>)
           (ArgObj \<lparr>tarpaulinRules.basePrice = Some basePriceR,
                    tarpaulinRules.eyelets = Some eyeletPrice,
                    tarpaulinRules.rope = Some ropePrice,
                    tarpaulinRules.stand = Some standPrice\<rparr>))"
      by (intro mono_tarpaulin) simp
  qed
  have t2: "0 \<le> ropePrice \<longrightarrow>
      totalLeq
        (calculateTarpaulinPrintingPrice
           (Some \<lparr>width = Num w, height = Num h, tarpaulinPrintingParams.eyelets = Num eLo,
                  tarpaulinPrintingParams.rope = False, tarpaulinPrintingParams.stand = st\<rparr>)
           (ArgObj \<lparr>tarpaulinRules.basePrice = Some basePriceR,
                    tarpaulinRules.eyelets = Some eyeletPrice,
                    tarpaulinRules.rope = Some ropePrice,
                    tarpaulinRules.stand = Some standPrice\<rparr>))
        (calculateTarpaulinPrintingPrice
           (Some \<lparr>width = Num w, height = Num h, tarpaulinPrintingParams.eyelets = Num eLo,
                  tarpaulinPrintingParams.rope = True, tarpaulinPrintingParams.stand = st\<rparr>)
           (ArgObj \<lparr>tarpaulinRules.basePrice = Some basePriceR,
                    tarpaulinRules.eyelets = Some eyeletPrice,
                    tarpaulinRules.rope = Some ropePrice,
                    tarpaulinRules.stand = Some standPrice\<rparr>))"
    by (intro impI mono_tarpaulin) simp
  have t3: "0 \<le> standPrice \<longrightarrow>
      totalLeq
        (calculateTarpaulinPrintingPrice
           (Some \<lparr>width = Num w, height = Num h, tarpaulinPrintingParams.eyelets = Num eLo,
                  tarpaulinPrintingParams.rope = rp, tarpaulinPrintingParams.stand = False\<rparr>)
           (ArgObj \<lparr>tarpaulinRules.basePrice = Some basePriceR,
                    tarpaulinRules.eyelets = Some eyeletPrice,
                    tarpaulinRules.rope = Some ropePrice,
                    tarpaulinRules.stand = Some standPrice\<rparr>))
        (calculateTarpaulinPrintingPrice
           (Some \<lparr>width = Num w, height = Num h, tarpaulinPrintingParams.eyelets = Num eLo,
                  tarpaulinPrintingParams.rope = rp, tarpaulinPrintingParams.stand = True\<rparr>)
           (ArgObj \<lparr>tarpaulinRules.basePrice = Some basePriceR,
                    tarpaulinRules.eyelets = Some eyeletPrice,
                    tarpaulinRules.rope = Some ropePrice,
                    tarpaulinRules.stand = Some standPrice\<rparr>))"
    by (intro impI mono_tarpaulin) simp
  have t4: "colorPageRate drules = Some colorRate \<and> blackPageRate drules = Some blackRate
       \<and> paperTypes drules = Some dtable \<and> listedOrPlain dtable pt
       \<and> 0 \<le> colorRate \<and> 0 \<le> blackRate \<and> 0 \<le> entryOr 0 dtable pt
       \<and> 0 < cLo \<and> cLo \<le> cHi \<longrightarrow>
      totalLeq
        (calculateDocumentPrintingPrice
           (Some \<lparr>paperSize = ps, paperType = pt, copies = Num cLo, colorMode = cm\<rparr>)
           (ArgObj drules) None)
        (calculateDocumentPrintingPrice
           (Some \<lparr>paperSize = ps, paperType = pt, copies = Num cHi, colorMode = cm\<rparr>)
           (ArgObj drules) None)
      \<and> totalLeq
        (calculateDocumentPrintingPrice
           (Some \<lparr>paperSize = ps, paperType = pt, copies = Num cLo, colorMode = cm\<rparr>)
           (ArgObj drules) (Some \<lparr>pageCount = pc, colorPages = Num (real colorPgs), bwPages = Num (real bwPgs)\<rparr>))
        (calculateDocumentPrintingPrice
           (Some \<lparr>paperSize = ps, paperType = pt, copies = Num cHi, colorMode = cm\<rparr>)
           (ArgObj drules) (Some \<lparr>pageCount = pc, colorPages = Num (real colorPgs), bwPages = Num (real bwPgs)\<rparr>))"
  proof
    assume a: "colorPageRate drules = Some colorRate \<and> blackPageRate drules = Some blackRate
       \<and> paperTypes drules = Some dtable \<and> listedOrPlain dtable pt
       \<and> 0 \<le> colorRate \<and> 0 \<le> blackRate \<and> 0 \<le> entryOr 0 dtable pt
       \<and> 0 < cLo \<and> cLo \<le> cHi"
    have plain: "totalLeq
        (calculateDocumentPrintingPrice
           (Some \<lparr>paperSize = ps, paperType = pt, copies = Num cLo, colorMode = cm\<rparr>)
           (ArgObj drules) None)
        (calculateDocumentPrintingPrice
           (Some \<lparr>paperSize = ps, paperType = pt, copies = Num cHi, colorMode = cm\<rparr>)
           (ArgObj drules) None)"
      using a by (intro mono_copies_plain [where cr = colorRate and br = blackRate
          and table = dtable]) simp_all
    have auto: "totalLeq
        (calculateDocumentPrintingPrice
           (Some \<lparr>paperSize = ps, paperType = pt, copies = Num cLo, colorMode = cm\<rparr>)
           (ArgObj drules) (Some \<lparr>pageCount = pc, colorPages = Num (real colorPgs), bwPages = Num (real bwPgs)\<rparr>))
        (calculateDocumentPrintingPrice
           (Some \<lparr>paperSize = ps, paperType = pt, copies = Num cHi, colorMode = cm\<rparr>)
           (ArgObj drules) (Some \<lparr>pageCount = pc, colorPages = Num (real colorPgs), bwPages = Num (real bwPgs)\<rparr>))"
    proof (cases "cm = ''Auto Detect''")
      case True
      have "totalLeq
        (calculateDocumentPrintingPrice
           (Some \<lparr>paperSize = ps, paperType = pt, copies = Num cLo, colorMode = ''Auto Detect''\<rparr>)
           (ArgObj drules) (Some \<lparr>pageCount = pc, colorPages = Num (real colorPgs), bwPages = Num (real bwPgs)\<rparr>))
        (calculateDocumentPrintingPrice
           (Some \<lparr>paperSize = ps, paperType = pt, copies = Num cHi, colorMode = ''Auto Detect''\<rparr>)
           (ArgObj drules) (Some \<lparr>pageCount = pc, colorPages = Num (real colorPgs), bwPages = Num (real bwPgs)\<rparr>))"
        using a by (intro mono_copies_auto [where cr = colorRate and br = blackRate
            and table = dtable]) simp_all
      with True show ?thesis by (simp only:)
    next
      case False
      with plain show ?thesis by (simp add: document_not_auto)
    qed
    from plain auto show "totalLeq
        (calculateDocumentPrintingPrice
           (Some \<lparr>paperSize = ps, paperType = pt, copies = Num cLo, colorMode = cm\<rparr>)
           (ArgObj drules) None)
        (calculateDocumentPrintingPrice
           (Some \<lparr>paperSize = ps, paperType = pt, copies = Num cHi, colorMode = cm\<rparr>)
           (ArgObj drules) None)
      \<and> totalLeq
        (calculateDocumentPrintingPrice
           (Some \<lparr>paperSize = ps, paperType = pt, copies = Num cLo, colorMode = cm\<rparr>)
           (ArgObj drules) (Some \<lparr>pageCount = pc, colorPages = Num (real colorPgs), bwPages = Num (real bwPgs)\<rparr>))
        (calculateDocumentPrintingPrice
           (Some \<lparr>paperSize = ps, paperType = pt, copies = Num cHi, colorMode = cm\<rparr>)
           (ArgObj drules) (Some \<lparr>pageCount = pc, colorPages = Num (real colorPgs), bwPages = Num (real bwPgs)\<rparr>))"
      by (rule conjI)
  qed
  have t5: "laminationRules.basePrice lrules = Some lbase \<and> sizes lrules = Some ltable
       \<and> listedOrPlain ltable sz \<and> 0 \<le> lbase \<and> 0 \<le> entryOr 1 ltable sz
       \<and> 0 < qLo \<and> qLo \<le> qHi \<longrightarrow>
      totalLeq
        (calculateLaminationPrice (Some \<lparr>size_lam = sz, quantity = Num qLo\<rparr>) (ArgObj lrules))
        (calculateLaminationPrice (Some \<lparr>size_lam = sz, quantity = Num qHi\<rparr>) (ArgObj lrules))"
    by (intro impI mono_quantity_lamination [where b = lbase and table = ltable]) simp_all
  have t6: "0 \<le> servicePrice \<and> nLo \<le> nHi \<longrightarrow>
      (\<exists>tLo tHi. snd (standardServicePrice servicePrice (Num nLo)) = Num tLo
         \<and> snd (standardServicePrice servicePrice (Num nHi)) = Num tHi \<and> tLo \<le> tHi)"
    by (simp add: standardServicePrice_def Let_def mult_left_mono)
  show ?thesis by (intro conjI t1 t2 t3 t4 t5 t6)
qed

theorem price_monotone_witness:
  "(0::real) \<le> 10 \<and> (4::real) \<le> 6
   \<and> totalLeq
        (calculateTarpaulinPrintingPrice
           (Some \<lparr>width = Num 3, height = Num 4, tarpaulinPrintingParams.eyelets = Num 4,
                  tarpaulinPrintingParams.rope = False, tarpaulinPrintingParams.stand = False\<rparr>)
           (ArgObj defaultTarpaulinRules))
        (calculateTarpaulinPrintingPrice
           (Some \<lparr>width = Num 3, height = Num 4, tarpaulinPrintingParams.eyelets = Num 6,
                  tarpaulinPrintingParams.rope = False, tarpaulinPrintingParams.stand = False\<rparr>)
           (ArgObj defaultTarpaulinRules))
   \<and> (0::real) \<le> 50
   \<and> totalLeq
        (calculateTarpaulinPrintingPrice
           (Some \<lparr>width = Num 3, height = Num 4, tarpaulinPrintingParams.eyelets = Num 4,
                  tarpaulinPrintingParams.rope = False, tarpaulinPrintingParams.stand = False\<rparr>)
           (ArgObj defaultTarpaulinRules))
        (calculateTarpaulinPrintingPrice
           (Some \<lparr>width = Num 3, height = Num 4, tarpaulinPrintingParams.eyelets = Num 4,
                  tarpaulinPrintingParams.rope = True, tarpaulinPrintingParams.stand = False\<rparr>)
           (ArgObj defaultTarpaulinRules))
   \<and> (0::real) \<le> 200
   \<and> totalLeq
        (calculateTarpaulinPrintingPrice
           (Some \<lparr>width = Num 3, height = Num 4, tarpaulinPrintingParams.eyelets = Num 4,
                  tarpaulinPrintingParams.rope = False, tarpaulinPrintingParams.stand = False\<rparr>)
           (ArgObj defaultTarpaulinRules))
        (calculateTarpaulinPrintingPrice
           (Some \<lparr>width = Num 3, height = Num 4, tarpaulinPrintingParams.eyelets = Num 4,
                  tarpaulinPrintingParams.rope = False, tarpaulinPrintingParams.stand = True\<rparr>)
           (ArgObj defaultTarpaulinRules))
   \<and> colorPageRate defaultDocumentRules = Some 2 \<and> blackPageRate defaultDocumentRules = Some 1
   \<and> listedOrPlain (the (paperTypes defaultDocumentRules)) ''Glossy''
   \<and> 0 \<le> entryOr 0 (the (paperTypes defaultDocumentRules)) ''Glossy''
   \<and> (0::real) < 1 \<and> (1::real) \<le> 2
   \<and> totalLeq
        (calculateDocumentPrintingPrice
           (Some \<lparr>paperSize = ''A4'', paperType = ''Glossy'', copies = Num 1, colorMode = ''Auto Detect''\<rparr>)
           (ArgObj defaultDocumentRules) None)
        (calculateDocumentPrintingPrice
           (Some \<lparr>paperSize = ''A4'', paperType = ''Glossy'', copies = Num 2, colorMode = ''Auto Detect''\<rparr>)
           (ArgObj defaultDocumentRules) None)
   \<and> totalLeq
        (calculateDocumentPrintingPrice
           (Some \<lparr>paperSize = ''A4'', paperType = ''Glossy'', copies = Num 1, colorMode = ''Auto Detect''\<rparr>)
           (ArgObj defaultDocumentRules) (Some \<lparr>pageCount = Num 10, colorPages = Num (real 4), bwPages = Num (real 6)\<rparr>))
        (calculateDocumentPrintingPrice
           (Some \<lparr>paperSize = ''A4'', paperType = ''Glossy'', copies = Num 2, colorMode = ''Auto Detect''\<rparr>)
           (ArgObj defaultDocumentRules) (Some \<lparr>pageCount = Num 10, colorPages = Num (real 4), bwPages = Num (real 6)\<rparr>))
   \<and> laminationRules.basePrice defaultLaminationRules = Some 25
   \<and> listedOrPlain (the (sizes defaultLaminationRules)) ''A4''
   \<and> 0 \<le> entryOr 1 (the (sizes defaultLaminationRules)) ''A4''
   \<and> totalLeq
        (calculateLaminationPrice (Some \<lparr>size_lam = ''A4'', quantity = Num 1\<rparr>) (ArgObj defaultLaminationRules))
        (calculateLaminationPrice (Some \<lparr>size_lam = ''A4'', quantity = Num 2\<rparr>) (ArgObj defaultLaminationRules))
   \<and> (0::real) \<le> 15
   \<and> (\<exists>tLo tHi. snd (standardServicePrice 15 (Num 1)) = Num tLo
         \<and> snd (standardServicePrice 15 (Num 2)) = Num tHi \<and> tLo \<le> tHi)"
proof -
  have pt: "listedOrPlain (the (paperTypes defaultDocumentRules)) ''Glossy''"
    by (simp add: listedOrPlain_def defaultDocumentRules_def)
  have sz: "listedOrPlain (the (sizes defaultLaminationRules)) ''A4''"
    by (simp add: listedOrPlain_def defaultLaminationRules_def)
  from price_monotone [where basePriceR = 25 and eyeletPrice = 10 and ropePrice = 50
      and standPrice = 200 and eLo = 4 and eHi = 6
      and w = 3 and h = 4 and rp = False and st = False
      and drules = defaultDocumentRules and colorRate = 2 and blackRate = 1
      and dtable = "the (paperTypes defaultDocumentRules)"
      and pt = "''Glossy''" and cLo = 1 and cHi = 2
      and ps = "''A4''" and cm = "''Auto Detect''" and pc = "Num 10"
      and colorPgs = 4 and bwPgs = 6
      and lrules = defaultLaminationRules and lbase = 25
      and ltable = "the (sizes defaultLaminationRules)"
      and sz = "''A4''" and qLo = 1 and qHi = 2
      and servicePrice = 15 and nLo = 1 and nHi = 2] pt sz
  show ?thesis
    by (simp add: defaultTarpaulinRules_def defaultDocumentRules_def defaultLaminationRules_def
        entryOr_def)
qed

section \<open>Decimal strings\<close>

lemma replicate_numeral: "replicate (numeral k) x = x # replicate (pred_numeral k) x"
  by (simp add: numeral_eq_Suc)

















section \<open>The number an order gets\<close>










lemmas store_eval = MemStorage_createOrder_def MemStorage_createOrderItem_def Let_def
  falsyString_def padStart_def substrFromEnd_def toString.simps digitChar_def map_values_def
  insertOrder.extend_def insertOrderItem.extend_def replicate_numeral toDateString_def


lemmas database_eval = databaseCreateOrder_def databaseCreateOrderItem_def
  DatabaseStorage_createOrder_def DatabaseStorage_createOrderItem_def selectCount_def
  insertOrderRow_def insertOrderItemRow_def sampleDatabase_def setHours_def dateLess_def
  Let_def falsyString_def padStart_def substrFromEnd_def toString.simps digitChar_def
  insertOrder.extend_def insertOrderItem.extend_def replicate_numeral

text \<open>
  C9. \<^verbatim>\<open>DatabaseStorage.createOrder\<close> does not propose count + 1. On 2 November 2026,
  after three orders that day, the count query returns the string \<^verbatim>\<open>3\<close>, and an order
  posted with an empty number is stored as \<^verbatim>\<open>ORD-261102-0031\<close>, not
  \<^verbatim>\<open>ORD-261102-0004\<close>. \<^verbatim>\<open>MemStorage.createOrder\<close>, which counts in a number, gives
  \<^verbatim>\<open>ORD-261102-0004\<close> for the same order after the same three orders (on a store built
  the day before).
\<close>

theorem database_count_is_concatenated:
  "selectCount
     (snd (databaseCreateOrder sampleDate
        (snd (databaseCreateOrder sampleDate
          (snd (databaseCreateOrder sampleDate (sampleDatabase sampleDate)
                  (clientOrder ''ORD-261102-4821'')))
          (clientOrder ''ORD-261102-1377'')))
        (clientOrder ''ORD-261102-9054'')))
     (setHours sampleDate 0 0 0 0) (setHours sampleDate 23 59 59 999)
   = Inr [''3'']
   \<and> fst (databaseCreateOrder sampleDate
       (snd (databaseCreateOrder sampleDate
          (snd (databaseCreateOrder sampleDate
            (snd (databaseCreateOrder sampleDate (sampleDatabase sampleDate)
                    (clientOrder ''ORD-261102-4821'')))
            (clientOrder ''ORD-261102-1377'')))
          (clientOrder ''ORD-261102-9054'')))
       (clientOrder []))
   = Inr \<lparr>orderNumber = Some ''ORD-261102-0031'', customerName = Some ''Walk-in Customer'',
          total = 250, status = Some ''pending'', createdBy = 2, id_order = 4,
          createdAt = sampleDate\<rparr>
   \<and> orderNumber (fst (MemStorage_createOrder
        (snd (MemStorage_createOrder
          (snd (MemStorage_createOrder
            (snd (MemStorage_createOrder (newMemStorage dayBefore dayBefore dayBefore)
                    (clientOrder ''ORD-261102-4821'') sampleDate sampleDate 0))
            (clientOrder ''ORD-261102-1377'') sampleDate sampleDate 0))
          (clientOrder ''ORD-261102-9054'') sampleDate sampleDate 0))
        (clientOrder []) sampleDate sampleDate 0))
      = Some ''ORD-261102-0004''"
proof -
  have db3: "snd (databaseCreateOrder sampleDate
        (snd (databaseCreateOrder sampleDate
          (snd (databaseCreateOrder sampleDate (sampleDatabase sampleDate)
                  (clientOrder ''ORD-261102-4821'')))
          (clientOrder ''ORD-261102-1377'')))
        (clientOrder ''ORD-261102-9054''))
     = \<lparr>usersIds = [1, 2], servicesIds = [1, 2, 3, 4],
        ordersRows =
          [insertOrder.extend (clientOrder ''ORD-261102-4821'')
             \<lparr>id_order = 1, createdAt = sampleDate\<rparr>,
           insertOrder.extend (clientOrder ''ORD-261102-1377'')
             \<lparr>id_order = 2, createdAt = sampleDate\<rparr>,
           insertOrder.extend (clientOrder ''ORD-261102-9054'')
             \<lparr>id_order = 3, createdAt = sampleDate\<rparr>],
        orderItemsRows = [], ordersIdSeq = 4, orderItemsIdSeq = 1, databaseNow = sampleDate\<rparr>"
    by (simp add: database_eval clientOrder_def)
  have mem: "orderNumber (fst (MemStorage_createOrder
        (snd (MemStorage_createOrder
          (snd (MemStorage_createOrder
            (snd (MemStorage_createOrder (newMemStorage dayBefore dayBefore dayBefore)
                    (clientOrder ''ORD-261102-4821'') sampleDate sampleDate 0))
            (clientOrder ''ORD-261102-1377'') sampleDate sampleDate 0))
          (clientOrder ''ORD-261102-9054'') sampleDate sampleDate 0))
        (clientOrder []) sampleDate sampleDate 0))
      = Some ''ORD-261102-0004''"
    by (simp add: store_eval newMemStorage_def constructorFields_def clientOrder_def
        sampleDate_def dayBefore_def)
  show ?thesis
    unfolding db3
    by (intro conjI mem) (simp_all add: database_eval clientOrder_def sampleDate_def)
qed

text \<open>
  C2 fails in the memory store. On a store built the day before (1 November 2026),
  after two orders on 2 November with the client's numbers \<^verbatim>\<open>ORD-261102-0003\<close> and
  \<^verbatim>\<open>ORD-261102-0003-007\<close>, a third order that repeats the first number gets the
  candidate \<^verbatim>\<open>ORD-261102-0003\<close>, which is taken, and with the random number 7 the
  suffixed number of the second order: two stored orders share a number.
\<close>

theorem duplicate_order_numbers_stored:
  "map (orderNumber \<circ> snd)
     (orders (snd (MemStorage_createOrder
        (snd (MemStorage_createOrder
          (snd (MemStorage_createOrder (newMemStorage dayBefore dayBefore dayBefore)
                  (clientOrder ''ORD-261102-0003'') sampleDate sampleDate 0))
          (clientOrder ''ORD-261102-0003-007'') sampleDate sampleDate 0))
        (clientOrder ''ORD-261102-0003'') sampleDate sampleDate 7)))
   = [Some ''ORD-2023-0041'', Some ''ORD-2023-0040'', Some ''ORD-2023-0039'',
      Some ''ORD-261102-0003'', Some ''ORD-261102-0003-007'', Some ''ORD-261102-0003-007'']"
  by (simp add: store_eval newMemStorage_def constructorFields_def clientOrder_def
      sampleDate_def dayBefore_def)

section \<open>Collisions\<close>




section \<open>Order items\<close>

lemma createOrderItems_append:
  "createOrderItems createOrderItem s oid (xs @ ys) acc
     = (case createOrderItems createOrderItem s oid xs acc of
          (Inl err, s1) \<Rightarrow> (Inl err, s1)
        | (Inr done, s1) \<Rightarrow> createOrderItems createOrderItem s1 oid ys done)"
proof (induction xs arbitrary: s acc)
  case Nil
  show ?case by simp
next
  case (Cons x xs)
  show ?case
  proof (cases "insertOrderItemSchema_parse (x\<lparr>orderId_body := Present oid\<rparr>)")
    case (Inl e)
    then show ?thesis by simp
  next
    case (Inr v)
    obtain r s1 where c: "createOrderItem s v = (r, s1)"
      by (cases "createOrderItem s v")
    show ?thesis
    proof (cases r)
      case (Inl e)
      with Inr c show ?thesis by simp
    next
      case r: (Inr item)
      with Inr c Cons.IH [of s1 "acc @ [item]"] show ?thesis by simp
    qed
  qed
qed

lemma createOrderItems_first_fails:
  assumes "createOrderItems createOrderItem s oid [bad] acc = (Inl err, s1)"
  shows "createOrderItems createOrderItem s oid (bad # post) acc = (Inl err, s1)"
proof (cases "insertOrderItemSchema_parse (bad\<lparr>orderId_body := Present oid\<rparr>)")
  case (Inl e)
  with assms show ?thesis by simp
next
  case (Inr v)
  obtain r s2 where c: "createOrderItem s v = (r, s2)"
    by (cases "createOrderItem s v")
  from assms Inr c show ?thesis by (cases r) simp_all
qed

lemma createOrderItems_holds:
  assumes "\<And>s row. holds s \<Longrightarrow> holds (snd (createOrderItem s row))"
  shows "holds s \<Longrightarrow> holds (snd (createOrderItems createOrderItem s oid its acc))"
proof (induction its arbitrary: s acc)
  case Nil
  then show ?case by simp
next
  case (Cons x xs)
  show ?case
  proof (cases "insertOrderItemSchema_parse (x\<lparr>orderId_body := Present oid\<rparr>)")
    case (Inl e)
    with Cons.prems show ?thesis by simp
  next
    case (Inr v)
    obtain r s1 where c: "createOrderItem s v = (r, s1)"
      by (cases "createOrderItem s v")
    from assms [OF Cons.prems, of v] c have h: "holds s1" by simp
    show ?thesis
    proof (cases r)
      case (Inl e)
      with Inr c h show ?thesis by simp
    next
      case r: (Inr item)
      with Inr c Cons.IH [OF h, of "acc @ [item]"] show ?thesis by simp
    qed
  qed
qed

lemma databaseCreateOrderItem_orders:
  "ordersRows (snd (databaseCreateOrderItem db row)) = ordersRows db"
  by (simp add: databaseCreateOrderItem_def DatabaseStorage_createOrderItem_def
      insertOrderItemRow_def Let_def split: option.splits)

text \<open>
  C3, as the claim states it, fails. On the database, a request whose only line item
  names a service that does not exist (id 99) is answered with 500 after the insert of
  the item failed, and a request whose only line item lacks its amount is answered with
  400; either way the order row stays in the table, with no items. The memory store
  (built the day before) keeps the order of such a request in the same way.
\<close>

theorem failed_item_counterexample:
  "post_api_orders (databaseCreateOrder sampleDate) databaseCreateOrderItem
       (sampleDatabase sampleDate) 2 sampleBody
       (Some [sampleItem\<lparr>serviceId_body := Present 99\<rparr>])
     = (InternalServerError,
        \<lparr>usersIds = [1, 2], servicesIds = [1, 2, 3, 4],
         ordersRows =
           [\<lparr>orderNumber = Some ''ORD-261102-4821'', customerName = Some ''Walk-in Customer'',
             total = 250, status = Some ''pending'', createdBy = 2, id_order = 1,
             createdAt = sampleDate\<rparr>],
         orderItemsRows = [], ordersIdSeq = 2, orderItemsIdSeq = 2, databaseNow = sampleDate\<rparr>)
   \<and> post_api_orders (databaseCreateOrder sampleDate) databaseCreateOrderItem
       (sampleDatabase sampleDate) 2 sampleBody
       (Some [sampleItem\<lparr>amount_body := Missing\<rparr>])
     = (ValidationError,
        \<lparr>usersIds = [1, 2], servicesIds = [1, 2, 3, 4],
         ordersRows =
           [\<lparr>orderNumber = Some ''ORD-261102-4821'', customerName = Some ''Walk-in Customer'',
             total = 250, status = Some ''pending'', createdBy = 2, id_order = 1,
             createdAt = sampleDate\<rparr>],
         orderItemsRows = [], ordersIdSeq = 2, orderItemsIdSeq = 1, databaseNow = sampleDate\<rparr>)
   \<and> fst (post_api_orders (MemStorage_createOrder_call sampleDate sampleDate 0)
            MemStorage_createOrderItem_call (newMemStorage dayBefore dayBefore dayBefore) 2
            sampleBody (Some [sampleItem\<lparr>amount_body := Missing\<rparr>]))
     = ValidationError
   \<and> map (\<lambda>kv. (fst kv, orderNumber (snd kv)))
       (orders (snd (post_api_orders (MemStorage_createOrder_call sampleDate sampleDate 0)
            MemStorage_createOrderItem_call (newMemStorage dayBefore dayBefore dayBefore) 2
            sampleBody (Some [sampleItem\<lparr>amount_body := Missing\<rparr>]))))
     = [(1, Some ''ORD-2023-0041''), (2, Some ''ORD-2023-0040''), (3, Some ''ORD-2023-0039''),
        (4, Some ''ORD-261102-4821'')]
   \<and> MemStorage_getOrderItems
       (snd (post_api_orders (MemStorage_createOrder_call sampleDate sampleDate 0)
            MemStorage_createOrderItem_call (newMemStorage dayBefore dayBefore dayBefore) 2
            sampleBody (Some [sampleItem\<lparr>amount_body := Missing\<rparr>]))) 4
     = []"
proof -
  have d1: "post_api_orders (databaseCreateOrder sampleDate) databaseCreateOrderItem
       (sampleDatabase sampleDate) 2 sampleBody
       (Some [sampleItem\<lparr>serviceId_body := Present 99\<rparr>])
     = (InternalServerError,
        \<lparr>usersIds = [1, 2], servicesIds = [1, 2, 3, 4],
         ordersRows =
           [\<lparr>orderNumber = Some ''ORD-261102-4821'', customerName = Some ''Walk-in Customer'',
             total = 250, status = Some ''pending'', createdBy = 2, id_order = 1,
             createdAt = sampleDate\<rparr>],
         orderItemsRows = [], ordersIdSeq = 2, orderItemsIdSeq = 2, databaseNow = sampleDate\<rparr>)"
    by (simp add: post_api_orders_def insertOrderSchema_parse_def
        insertOrderItemSchema_parse_def requiredField_def optionalField_def bindE_def
        handleZodError_def database_eval sampleBody_def sampleItem_def)
  have d2: "post_api_orders (databaseCreateOrder sampleDate) databaseCreateOrderItem
       (sampleDatabase sampleDate) 2 sampleBody
       (Some [sampleItem\<lparr>amount_body := Missing\<rparr>])
     = (ValidationError,
        \<lparr>usersIds = [1, 2], servicesIds = [1, 2, 3, 4],
         ordersRows =
           [\<lparr>orderNumber = Some ''ORD-261102-4821'', customerName = Some ''Walk-in Customer'',
             total = 250, status = Some ''pending'', createdBy = 2, id_order = 1,
             createdAt = sampleDate\<rparr>],
         orderItemsRows = [], ordersIdSeq = 2, orderItemsIdSeq = 1, databaseNow = sampleDate\<rparr>)"
    by (simp add: post_api_orders_def insertOrderSchema_parse_def
        insertOrderItemSchema_parse_def requiredField_def optionalField_def bindE_def
        handleZodError_def database_eval sampleBody_def sampleItem_def)
  have m: "post_api_orders (MemStorage_createOrder_call sampleDate sampleDate 0)
            MemStorage_createOrderItem_call (newMemStorage dayBefore dayBefore dayBefore) 2
            sampleBody (Some [sampleItem\<lparr>amount_body := Missing\<rparr>])
     = (ValidationError,
        snd (MemStorage_createOrder (newMemStorage dayBefore dayBefore dayBefore)
               (clientOrder ''ORD-261102-4821'') sampleDate sampleDate 0))"
    by (simp add: post_api_orders_def insertOrderSchema_parse_def
        insertOrderItemSchema_parse_def requiredField_def optionalField_def bindE_def
        handleZodError_def MemStorage_createOrder_call_def sampleBody_def sampleItem_def
        clientOrder_def split: prod.splits)
  have s: "snd (MemStorage_createOrder (newMemStorage dayBefore dayBefore dayBefore)
                  (clientOrder ''ORD-261102-4821'') sampleDate sampleDate 0)
     = \<lparr>orders =
          [(1, \<lparr>orderNumber = Some ''ORD-2023-0041'', customerName = Some ''ABC Company'',
                total = 750, status = Some ''in_progress'', createdBy = 1, id_order = 1,
                createdAt = dayBefore\<rparr>),
           (2, \<lparr>orderNumber = Some ''ORD-2023-0040'', customerName = Some ''Walk-in Customer'',
                total = 250, status = Some ''ready'', createdBy = 2, id_order = 2,
                createdAt = dayBefore\<rparr>),
           (3, \<lparr>orderNumber = Some ''ORD-2023-0039'', customerName = Some ''Walk-in Customer'',
                total = 625, status = Some ''pending'', createdBy = 2, id_order = 3,
                createdAt = dayBefore\<rparr>),
           (4, \<lparr>orderNumber = Some ''ORD-261102-4821'', customerName = Some ''Walk-in Customer'',
                total = 250, status = Some ''pending'', createdBy = 2, id_order = 4,
                createdAt = sampleDate\<rparr>)],
        orderItems =
          [(1, \<lparr>orderId = None, serviceId = 2, insertOrderItem.quantity = 1,
                insertOrderItem.unitPrice = 750, amount = 750, id_item = 1\<rparr>),
           (2, \<lparr>orderId = None, serviceId = 3, insertOrderItem.quantity = 10,
                insertOrderItem.unitPrice = 25, amount = 250, id_item = 2\<rparr>),
           (3, \<lparr>orderId = None, serviceId = 4, insertOrderItem.quantity = 5,
                insertOrderItem.unitPrice = 125, amount = 625, id_item = 3\<rparr>)],
        orderCurrentId = 5, orderItemCurrentId = 4,
        orderNumbers = {''ORD-261102-4821'', ''ORD-2023-0039'', ''ORD-2023-0040'',
                        ''ORD-2023-0041''}\<rparr>"
    by (simp add: store_eval newMemStorage_def constructorFields_def clientOrder_def
        sampleDate_def dayBefore_def)
  show ?thesis
    unfolding m s
    by (intro conjI d1 d2) (simp_all add: MemStorage_getOrderItems_def map_values_def)
qed

text \<open>
  C3, amended. Let the order of a request be created, the line items \<open>pre\<close> be
  validated and inserted, and the next line item \<open>bad\<close> fail, in its validation or in
  its insert. Then the request is answered with an error, 400 for a validation error and
  500 otherwise, and not with the order; the store is the one the failing call left,
  and the items after \<open>bad\<close> are not looked at. Nothing is rolled back or marked: what
  holds of the store once the order is created, and is kept by every insert of an item
  (such as: the order row is in the table), holds of the store when the request ends.
\<close>

theorem failed_item_keeps_order:
  assumes "insertOrderSchema_parse (body\<lparr>createdBy_body := Present userId\<rparr>) = Inr validated"
    and "createOrder storage validated = (Inr ord, storage1)"
    and "createOrderItems createOrderItem storage1 (id_order ord) pre [] = (Inr written, storage2)"
    and "createOrderItems createOrderItem storage2 (id_order ord) [bad] written
           = (Inl err, storage3)"
    and "holds storage1"
    and "\<And>s row. holds s \<Longrightarrow> holds (snd (createOrderItem s row))"
  shows "post_api_orders createOrder createOrderItem storage userId body
             (Some (pre @ bad # post))
           = (if err = ZodError then ValidationError else InternalServerError, storage3)
         \<and> holds storage3"
proof -
  have loop: "createOrderItems createOrderItem storage1 (id_order ord) (pre @ bad # post) []
      = (Inl err, storage3)"
    using assms(3) createOrderItems_first_fails [OF assms(4), of post]
    by (simp add: createOrderItems_append)
  have answer: "handleZodError err
      = (if err = ZodError then ValidationError else InternalServerError)"
    by (cases err) (simp_all add: handleZodError_def)
  have run: "post_api_orders createOrder createOrderItem storage userId body
             (Some (pre @ bad # post))
           = (if err = ZodError then ValidationError else InternalServerError, storage3)"
    using assms(1,2) loop answer by (simp add: post_api_orders_def Let_def)
  have "holds (snd (createOrderItems createOrderItem storage1 (id_order ord) pre []))"
    using assms(6) assms(5) by (rule createOrderItems_holds)
  with assms(3) have "holds storage2" by simp
  with assms(6) have "holds (snd (createOrderItems createOrderItem storage2 (id_order ord)
      [bad] written))"
    by (rule createOrderItems_holds)
  with assms(4) have "holds storage3" by simp
  with run show ?thesis by (rule conjI)
qed

theorem failed_item_keeps_order_witness:
  "insertOrderSchema_parse (sampleBody\<lparr>createdBy_body := Present 2\<rparr>)
     = Inr (clientOrder ''ORD-261102-4821'')
   \<and> post_api_orders (databaseCreateOrder sampleDate) databaseCreateOrderItem
       (sampleDatabase sampleDate) 2 sampleBody
       (Some [sampleItem, sampleItem\<lparr>serviceId_body := Present 99\<rparr>, sampleItem])
     = (InternalServerError,
        \<lparr>usersIds = [1, 2], servicesIds = [1, 2, 3, 4],
         ordersRows =
           [\<lparr>orderNumber = Some ''ORD-261102-4821'', customerName = Some ''Walk-in Customer'',
             total = 250, status = Some ''pending'', createdBy = 2, id_order = 1,
             createdAt = sampleDate\<rparr>],
         orderItemsRows =
           [\<lparr>orderId = Some 1, serviceId = 3, insertOrderItem.quantity = 10,
             insertOrderItem.unitPrice = 25, amount = 250, id_item = 1\<rparr>],
         ordersIdSeq = 2, orderItemsIdSeq = 3, databaseNow = sampleDate\<rparr>)"
proof -
  define ord :: order where
    "ord = \<lparr>orderNumber = Some ''ORD-261102-4821'', customerName = Some ''Walk-in Customer'',
             total = 250, status = Some ''pending'', createdBy = 2, id_order = 1,
             createdAt = sampleDate\<rparr>"
  define item :: orderItem where
    "item = \<lparr>orderId = Some 1, serviceId = 3, insertOrderItem.quantity = 10,
             insertOrderItem.unitPrice = 25, amount = 250, id_item = 1\<rparr>"
  define db1 where
    "db1 = \<lparr>usersIds = [1, 2], servicesIds = [1, 2, 3, 4], ordersRows = [ord],
            orderItemsRows = [], ordersIdSeq = 2, orderItemsIdSeq = 1,
            databaseNow = sampleDate\<rparr>"
  define db2 where
    "db2 = \<lparr>usersIds = [1, 2], servicesIds = [1, 2, 3, 4], ordersRows = [ord],
            orderItemsRows = [item], ordersIdSeq = 2, orderItemsIdSeq = 2,
            databaseNow = sampleDate\<rparr>"
  define db3 where
    "db3 = \<lparr>usersIds = [1, 2], servicesIds = [1, 2, 3, 4], ordersRows = [ord],
            orderItemsRows = [item], ordersIdSeq = 2, orderItemsIdSeq = 3,
            databaseNow = sampleDate\<rparr>"
  have oid: "id_order ord = 1"
    by (simp add: ord_def)
  have h1: "insertOrderSchema_parse (sampleBody\<lparr>createdBy_body := Present 2\<rparr>)
     = Inr (clientOrder ''ORD-261102-4821'')"
    by (simp add: insertOrderSchema_parse_def requiredField_def optionalField_def bindE_def
        sampleBody_def clientOrder_def)
  have h2: "databaseCreateOrder sampleDate (sampleDatabase sampleDate)
              (clientOrder ''ORD-261102-4821'') = (Inr ord, db1)"
    by (simp add: database_eval clientOrder_def ord_def db1_def)
  have h3: "createOrderItems databaseCreateOrderItem db1 (id_order ord) [sampleItem] []
     = (Inr [item], db2)"
    unfolding oid
    by (simp add: insertOrderItemSchema_parse_def requiredField_def bindE_def sampleItem_def
        database_eval db1_def db2_def item_def ord_def)
  have h4: "createOrderItems databaseCreateOrderItem db2 (id_order ord)
              [sampleItem\<lparr>serviceId_body := Present 99\<rparr>] [item]
     = (Inl OtherError, db3)"
    unfolding oid
    by (simp add: insertOrderItemSchema_parse_def requiredField_def bindE_def sampleItem_def
        database_eval db2_def db3_def ord_def)
  have h5: "ord \<in> set (ordersRows db1)"
    by (simp add: db1_def)
  have h6: "ord \<in> set (ordersRows (snd (databaseCreateOrderItem s row)))"
    if "ord \<in> set (ordersRows s)" for s row
    using that by (simp only: databaseCreateOrderItem_orders)
  note t = failed_item_keeps_order [where holds = "\<lambda>s. ord \<in> set (ordersRows s)"
      and createOrder = "databaseCreateOrder sampleDate"
      and createOrderItem = databaseCreateOrderItem and post = "[sampleItem]",
      OF h1 h2 h3 h4 h5 h6]
  from t [THEN conjunct1] have r: "post_api_orders (databaseCreateOrder sampleDate)
       databaseCreateOrderItem (sampleDatabase sampleDate) 2 sampleBody
       (Some [sampleItem, sampleItem\<lparr>serviceId_body := Present 99\<rparr>, sampleItem])
     = (InternalServerError, db3)"
    by simp
  from h1 r show ?thesis
    by (simp only: db3_def ord_def item_def)
qed

end
